theory Spec2Isabelle
  imports Complex_Main
begin

section \<open>Configuration\<close>

text \<open>
  The defaults of \<^verbatim>\<open>src/config/index.js\<close>. JavaScript numbers are modelled as exact
  rationals (counts and attempts as integers); times are milliseconds since the epoch.
\<close>

record config =
  DEFAULT_SEARCH_RADIUS_KM :: rat
  DRIVER_RESPONSE_TIMEOUT :: int
  MAX_MATCH_ATTEMPTS :: int
  FARE_BASE :: rat
  FARE_PER_KM :: rat
  FARE_PER_MINUTE :: rat

definition default_config :: config where
  "default_config =
     \<lparr> DEFAULT_SEARCH_RADIUS_KM = 5, DRIVER_RESPONSE_TIMEOUT = 15000,
       MAX_MATCH_ATTEMPTS = 5, FARE_BASE = 50, FARE_PER_KM = 12, FARE_PER_MINUTE = 2 \<rparr>"

definition SURGE_MIN :: rat where
  "SURGE_MIN = 1"

definition SURGE_MAX :: rat where
  "SURGE_MAX = 3"

text \<open>\<^verbatim>\<open>Math.round\<close>: the nearest integer, a tie going up.\<close>

definition Math_round :: "rat \<Rightarrow> int" where
  "Math_round x = \<lfloor>x + 1 / 2\<rfloor>"

section \<open>Surge pricing: the multiplier\<close>

text \<open>\<^verbatim>\<open>SurgePricingService.computeSurgeMultiplier(supply, demand)\<close>.\<close>

definition computeSurgeMultiplier :: "nat \<Rightarrow> nat \<Rightarrow> rat" where
  "computeSurgeMultiplier supply demand =
     (if supply = 0 \<and> demand = 0 then SURGE_MIN
      else if supply = 0 then SURGE_MAX
      else
        let ratio = of_nat demand / of_nat supply;
            smoothingFactor = 1 / 2;
            surge0 = 1 + (ratio - 1) * smoothingFactor;
            surge1 = max SURGE_MIN surge0;
            surge2 = min SURGE_MAX surge1
        in of_int (Math_round (surge2 * 10)) / 10)"

text \<open>The formula in the words of the specification, to compare the code with.\<close>

definition spec_clamp :: "rat \<Rightarrow> rat \<Rightarrow> rat \<Rightarrow> rat" where
  "spec_clamp x lo hi = (if x < lo then lo else if hi < x then hi else x)"

definition spec_round_one_decimal :: "rat \<Rightarrow> rat" where
  "spec_round_one_decimal x = of_int (round (x * 10)) / 10"

definition spec_multiplier :: "nat \<Rightarrow> nat \<Rightarrow> rat" where
  "spec_multiplier supply demand =
     spec_round_one_decimal
       (spec_clamp (1 + (of_nat demand / of_nat supply - 1) * (1 / 2)) 1 3)"

section \<open>Stores\<close>

text \<open>
  The relational tables \<^verbatim>\<open>ride_requests\<close> and \<^verbatim>\<open>driver_offers\<close> of
  \<^verbatim>\<open>scripts/init-db.sql\<close> (the columns the dispatch code reads or writes), and the Redis
  keys, one field for each family of keys. Statuses, tiers and ids are the strings the code
  uses. A key's time to live is not part of the state: its expiry is a step of the
  surroundings.
\<close>

record ride_request_row =
  rr_id :: string
  rr_rider_id :: string
  rr_driver_id :: "string option"
  rr_pickup_lat :: rat
  rr_pickup_lng :: rat
  rr_destination_lat :: rat
  rr_destination_lng :: rat
  rr_tier :: string
  rr_payment_method :: string
  rr_status :: string
  rr_surge_multiplier :: rat
  rr_estimated_fare :: rat
  rr_idempotency_key :: string
  rr_match_attempts :: int
  rr_current_driver_offer_id :: "string option"
  rr_expires_at :: int

record driver_offer_row =
  do_id :: string
  do_ride_request_id :: string
  do_driver_id :: string
  do_status :: string
  do_responded_at :: "int option"
  do_decline_reason :: "string option"
  do_expires_at :: int

text \<open>The JSON value stored under \<^verbatim>\<open>ride:{rideId}:offer\<close>.\<close>

record offer_entry =
  oe_offerId :: string
  oe_driverId :: string
  oe_expiresAt :: int

text \<open>A member of the geo set \<^verbatim>\<open>drivers:locations:{region}\<close>.\<close>

record geo_member =
  gm_member :: string
  gm_lng :: rat
  gm_lat :: rat

text \<open>The hash \<^verbatim>\<open>driver:{driverId}:meta\<close>; a field that is not set is \<open>None\<close>.\<close>

record driver_meta =
  meta_status :: "string option"
  meta_vehicleType :: "string option"
  meta_heading :: "rat option"
  meta_speed :: "rat option"

text \<open>The hash \<^verbatim>\<open>surge:{geoCell}\<close>.\<close>

record surge_entry =
  se_multiplier :: rat
  se_supply :: nat
  se_demand :: nat
  se_region :: string
  se_updatedAt :: int

record world =
  ride_requests :: "ride_request_row list"
  driver_offers :: "driver_offer_row list"
  offer_key :: "string \<rightharpoonup> offer_entry"
  geo_key :: "string \<Rightarrow> geo_member list"
  presence_key :: "string \<Rightarrow> bool"
  meta_key :: "string \<Rightarrow> driver_meta"
  demand_key :: "string \<rightharpoonup> nat"
  surge_key :: "string \<rightharpoonup> surge_entry"
  surge_cells_key :: "string \<Rightarrow> string list"
  lock_key :: "string \<Rightarrow> bool"
  published :: "(string \<times> string) list"

text \<open>
  \<open>offer_key w rideId\<close> is the key \<^verbatim>\<open>ride:{rideId}:offer\<close>, \<open>presence_key w d\<close> says that
  \<^verbatim>\<open>driver:{d}:presence\<close> exists, \<open>demand_key w cell\<close> is \<^verbatim>\<open>demand:{cell}\<close>,
  \<open>lock_key w rideId\<close> says that \<^verbatim>\<open>lock:ride:{rideId}\<close> exists (the key that
  \<^verbatim>\<open>docs/LLD-Dispatch.md\<close> names), and \<open>published\<close> is the log of events sent to the bus
  (topic and key), the latest last.
\<close>

definition publishEvent :: "string \<Rightarrow> string \<Rightarrow> world \<Rightarrow> world" where
  "publishEvent topic k w = w\<lparr>published := published w @ [(topic, k)]\<rparr>"

section \<open>Proximity index\<close>

text \<open>
  The distance Redis computes between two points (longitude, latitude of each), in
  kilometres, is a parameter of the model.
\<close>

type_synonym geodist = "rat \<Rightarrow> rat \<Rightarrow> rat \<Rightarrow> rat \<Rightarrow> rat"

text \<open>
  \<^verbatim>\<open>GEORADIUS key lng lat radius km WITHDIST WITHCOORD\<close>: the members within the radius,
  each with its distance and coordinates; with \<^verbatim>\<open>ASC COUNT n\<close> the \<open>n\<close> nearest, the
  nearest first.
\<close>

type_synonym geo_result = "string \<times> rat \<times> rat \<times> rat"

definition gr_distance :: "geo_result \<Rightarrow> rat" where
  "gr_distance r = fst (snd r)"

definition georadius :: "geodist \<Rightarrow> geo_member list \<Rightarrow> rat \<Rightarrow> rat \<Rightarrow> rat \<Rightarrow> geo_result list" where
  "georadius gd members lng lat radiusKm =
     map (\<lambda>m. (gm_member m, gd lng lat (gm_lng m) (gm_lat m), gm_lng m, gm_lat m))
       (filter (\<lambda>m. gd lng lat (gm_lng m) (gm_lat m) \<le> radiusKm) members)"

definition georadius_asc_count ::
  "geodist \<Rightarrow> geo_member list \<Rightarrow> rat \<Rightarrow> rat \<Rightarrow> rat \<Rightarrow> nat \<Rightarrow> geo_result list" where
  "georadius_asc_count gd members lng lat radiusKm n =
     take n (sort_key gr_distance (georadius gd members lng lat radiusKm))"

text \<open>JavaScript's \<^verbatim>\<open>s || d\<close> and truthiness, for a string that may be undefined.\<close>

definition str_or :: "string option \<Rightarrow> string \<Rightarrow> string" where
  "str_or v d = (case v of None \<Rightarrow> d | Some s \<Rightarrow> if s = [] then d else s)"

definition truthy :: "string option \<Rightarrow> bool" where
  "truthy v = (case v of None \<Rightarrow> False | Some s \<Rightarrow> s \<noteq> [])"

definition num_or_zero :: "rat option \<Rightarrow> rat" where
  "num_or_zero v = (case v of None \<Rightarrow> 0 | Some x \<Rightarrow> x)"

record nearby_driver =
  nd_driverId :: string
  nd_distanceKm :: rat
  nd_latitude :: rat
  nd_longitude :: rat
  nd_vehicleType :: string
  nd_status :: "string option"
  nd_heading :: rat
  nd_speed :: rat

text \<open>The three \<^verbatim>\<open>continue\<close> tests of the loop in \<^verbatim>\<open>findNearbyDrivers\<close>, negated.\<close>

definition nearby_keep :: "world \<Rightarrow> string option \<Rightarrow> geo_result \<Rightarrow> bool" where
  "nearby_keep w vehicleType r =
     (let driverId = fst r in
      if \<not> presence_key w driverId then False
      else if meta_status (meta_key w driverId) \<noteq> Some ''ONLINE'' then False
      else if truthy vehicleType
              \<and> Some (str_or (meta_vehicleType (meta_key w driverId)) ''ECONOMY'') \<noteq> vehicleType
           then False
      else True)"

text \<open>The object pushed for a result that passes them.\<close>

definition nearby_entry :: "world \<Rightarrow> geo_result \<Rightarrow> nearby_driver" where
  "nearby_entry w r =
     (case r of (driverId, distance, lng, lat) \<Rightarrow>
        \<lparr> nd_driverId = driverId, nd_distanceKm = distance, nd_latitude = lat,
          nd_longitude = lng,
          nd_vehicleType = str_or (meta_vehicleType (meta_key w driverId)) ''ECONOMY'',
          nd_status = meta_status (meta_key w driverId),
          nd_heading = num_or_zero (meta_heading (meta_key w driverId)),
          nd_speed = num_or_zero (meta_speed (meta_key w driverId)) \<rparr>)"

text \<open>The loop over the results, with its \<^verbatim>\<open>break\<close> once \<open>limit\<close> drivers are collected.\<close>

fun nearby_loop ::
  "world \<Rightarrow> string option \<Rightarrow> nat \<Rightarrow> geo_result list \<Rightarrow> nearby_driver list \<Rightarrow> nearby_driver list" where
  "nearby_loop w vehicleType limit [] drivers = drivers"
| "nearby_loop w vehicleType limit (r # results) drivers =
     (if \<not> nearby_keep w vehicleType r then nearby_loop w vehicleType limit results drivers
      else if limit \<le> length (drivers @ [nearby_entry w r]) then drivers @ [nearby_entry w r]
      else nearby_loop w vehicleType limit results (drivers @ [nearby_entry w r]))"

text \<open>
  \<^verbatim>\<open>DriverLocationService.findNearbyDrivers\<close>; the \<^verbatim>\<open>count\<close> it returns beside the list
  is the length of the list.
\<close>

definition findNearbyDrivers ::
  "geodist \<Rightarrow> world \<Rightarrow> rat \<Rightarrow> rat \<Rightarrow> rat \<Rightarrow> string \<Rightarrow> string option \<Rightarrow> nat \<Rightarrow> nearby_driver list" where
  "findNearbyDrivers gd w latitude longitude radiusKm region vehicleType limit =
     (let results = georadius_asc_count gd (geo_key w region) longitude latitude radiusKm (limit * 2)
      in nearby_loop w vehicleType limit results [])"

text \<open>\<^verbatim>\<open>DriverLocationService.updateDriverStatus\<close>.\<close>

definition updateDriverStatus :: "string \<Rightarrow> string \<Rightarrow> world \<Rightarrow> world" where
  "updateDriverStatus driverId status w =
     publishEvent ''driver.status.changed'' driverId
       (w\<lparr>meta_key := (meta_key w)(driverId := (meta_key w driverId)\<lparr>meta_status := Some status\<rparr>)\<rparr>)"

text \<open>
  The filter of the specification: a member of the region's geo set within the radius,
  \<open>ONLINE\<close>, with a presence marker, of the tier asked for if one is.
\<close>

definition spec_satisfies ::
  "geodist \<Rightarrow> world \<Rightarrow> rat \<Rightarrow> rat \<Rightarrow> rat \<Rightarrow> string option \<Rightarrow> geo_member \<Rightarrow> bool" where
  "spec_satisfies gd w latitude longitude radiusKm vehicleType m =
     (gd longitude latitude (gm_lng m) (gm_lat m) \<le> radiusKm
      \<and> meta_status (meta_key w (gm_member m)) = Some ''ONLINE''
      \<and> presence_key w (gm_member m)
      \<and> (if truthy vehicleType
          then Some (str_or (meta_vehicleType (meta_key w (gm_member m))) ''ECONOMY'') = vehicleType
          else True))"

text \<open>A stand-in distance for evaluating concrete scenes: the sum of the coordinate gaps.\<close>

definition grid_dist :: geodist where
  "grid_dist lng1 lat1 lng2 lat2 = \<bar>lng1 - lng2\<bar> + \<bar>lat1 - lat2\<bar>"

definition empty_world :: world where
  "empty_world =
     \<lparr> ride_requests = [], driver_offers = [], offer_key = Map.empty,
       geo_key = (\<lambda>_. []), presence_key = (\<lambda>_. False),
       meta_key = (\<lambda>_. \<lparr> meta_status = None, meta_vehicleType = None, meta_heading = None,
                     meta_speed = None \<rparr>),
       demand_key = Map.empty, surge_key = Map.empty, surge_cells_key = (\<lambda>_. []),
       lock_key = (\<lambda>_. False), published = [] \<rparr>"

text \<open>Seeding a driver as the integration tests do: geo entry, meta hash, presence marker.\<close>

definition seed_driver :: "string \<Rightarrow> string \<Rightarrow> rat \<Rightarrow> rat \<Rightarrow> string \<Rightarrow> string \<Rightarrow> world \<Rightarrow> world" where
  "seed_driver region driverId lng lat status vehicleType w =
     w\<lparr> geo_key := (geo_key w)(region := geo_key w region
                  @ [\<lparr> gm_member = driverId, gm_lng = lng, gm_lat = lat \<rparr>]),
        meta_key := (meta_key w)(driverId := \<lparr> meta_status = Some status,
                  meta_vehicleType = Some vehicleType, meta_heading = None, meta_speed = None \<rparr>),
        presence_key := (presence_key w)(driverId := True) \<rparr>"

section \<open>Geo utilities\<close>

text \<open>\<^verbatim>\<open>getRegionFromCoordinates\<close> of \<^verbatim>\<open>utils/geo.utils.js\<close>.\<close>

definition getRegionFromCoordinates :: "rat \<Rightarrow> rat \<Rightarrow> string" where
  "getRegionFromCoordinates lat lng =
     (if 127 / 10 \<le> lat \<and> lat \<le> 132 / 10 \<and> 774 / 10 \<le> lng \<and> lng \<le> 778 / 10
        then ''bangalore''
      else if 188 / 10 \<le> lat \<and> lat \<le> 193 / 10 \<and> 727 / 10 \<le> lng \<and> lng \<le> 73
        then ''mumbai''
      else if 284 / 10 \<le> lat \<and> lat \<le> 289 / 10 \<and> 768 / 10 \<le> lng \<and> lng \<le> 774 / 10
        then ''delhi''
      else ''bangalore'')"

text \<open>The decimal digits of an integer, as a template literal prints it.\<close>

function nat_to_string :: "nat \<Rightarrow> string" where
  "nat_to_string n =
     (if n < 10 then [''0123456789'' ! n]
      else nat_to_string (n div 10) @ [''0123456789'' ! (n mod 10)])"
  by pat_completeness auto
termination
  by (relation "measure id") auto

definition int_to_string :: "int \<Rightarrow> string" where
  "int_to_string i = (if i < 0 then CHR ''-'' # nat_to_string (nat (- i)) else nat_to_string (nat i))"

text \<open>\<^verbatim>\<open>latLngToGeoCell\<close> at its default resolution 8.\<close>

definition latLngToGeoCell :: "rat \<Rightarrow> rat \<Rightarrow> string" where
  "latLngToGeoCell lat lng =
     (let latGrid = \<lfloor>lat * 1000\<rfloor>; lngGrid = \<lfloor>lng * 1000\<rfloor>
      in ''h3_8'' @ int_to_string latGrid @ int_to_string lngGrid @ ''ffffff'')"

section \<open>Surge pricing: the service\<close>

record surge_data =
  sd_geoCell :: string
  sd_surgeMultiplier :: rat
  sd_supplyCount :: nat
  sd_demandCount :: nat

text \<open>\<^verbatim>\<open>getSurgeForCell\<close>: the cached entry, or the default.\<close>

definition getSurgeForCell :: "string \<Rightarrow> world \<Rightarrow> surge_data" where
  "getSurgeForCell geoCell w =
     (case surge_key w geoCell of
        Some cached \<Rightarrow>
          \<lparr> sd_geoCell = geoCell, sd_surgeMultiplier = se_multiplier cached,
            sd_supplyCount = se_supply cached, sd_demandCount = se_demand cached \<rparr>
      | None \<Rightarrow>
          \<lparr> sd_geoCell = geoCell, sd_surgeMultiplier = SURGE_MIN, sd_supplyCount = 0,
            sd_demandCount = 0 \<rparr>)"

text \<open>\<^verbatim>\<open>getSupplyCount\<close>: the members within 2 km that are present and \<open>ONLINE\<close>.\<close>

definition getSupplyCount :: "geodist \<Rightarrow> string \<Rightarrow> rat \<Rightarrow> rat \<Rightarrow> world \<Rightarrow> nat" where
  "getSupplyCount gd region latitude longitude w =
     (let radiusKm = 2;
          results = georadius gd (geo_key w region) longitude latitude radiusKm
      in length (filter (\<lambda>r. presence_key w (fst r)
                              \<and> meta_status (meta_key w (fst r)) = Some ''ONLINE'') results))"

definition calculateSurge ::
  "geodist \<Rightarrow> int \<Rightarrow> string \<Rightarrow> string \<Rightarrow> rat \<Rightarrow> rat \<Rightarrow> world \<Rightarrow> surge_data \<times> world" where
  "calculateSurge gd now geoCell region latitude longitude w =
     (let supplyCount = getSupplyCount gd region latitude longitude w;
          demandCount = (case demand_key w geoCell of None \<Rightarrow> 0 | Some n \<Rightarrow> n);
          surgeMultiplier = computeSurgeMultiplier supplyCount demandCount;
          w1 = w\<lparr>surge_key := (surge_key w)(geoCell \<mapsto>
                  \<lparr> se_multiplier = surgeMultiplier, se_supply = supplyCount,
                    se_demand = demandCount, se_region = region, se_updatedAt = now \<rparr>)\<rparr>;
          w2 = w1\<lparr>surge_cells_key := (surge_cells_key w1)
                  (region := List.insert geoCell (surge_cells_key w1 region))\<rparr>;
          w3 = publishEvent ''surge.updated'' geoCell w2
      in (\<lparr> sd_geoCell = geoCell, sd_surgeMultiplier = surgeMultiplier,
            sd_supplyCount = supplyCount, sd_demandCount = demandCount \<rparr>, w3))"

definition incrementDemand :: "string \<Rightarrow> string \<Rightarrow> world \<Rightarrow> nat \<times> world" where
  "incrementDemand geoCell region w =
     (let count = (case demand_key w geoCell of None \<Rightarrow> 1 | Some n \<Rightarrow> n + 1)
      in (count, w\<lparr>demand_key := (demand_key w)(geoCell \<mapsto> count)\<rparr>))"

definition getSurgeForLocation :: "geodist \<Rightarrow> int \<Rightarrow> rat \<Rightarrow> rat \<Rightarrow> world \<Rightarrow> surge_data \<times> world" where
  "getSurgeForLocation gd now latitude longitude w =
     (let geoCell = latLngToGeoCell latitude longitude;
          data = getSurgeForCell geoCell w
      in if sd_supplyCount data = 0 \<and> sd_demandCount data = 0
         then calculateSurge gd now geoCell (getRegionFromCoordinates latitude longitude)
                latitude longitude w
         else (data, w))"

section \<open>Dispatch\<close>

text \<open>
  What the dispatch code can throw: its own \<^verbatim>\<open>Error('Ride not found')\<close>, and the
  database's refusal of an \<^verbatim>\<open>INSERT\<close> that repeats a primary key or a unique
  idempotency key. An operation that throws keeps the writes it made before: the code
  opens no transaction.
\<close>

datatype error = RideNotFound | UniqueViolation

text \<open>
  Awaiting a call that may throw and building the return value from its result: an error
  propagates with the state the call left.
\<close>

definition returning :: "(error + 'a) \<times> world \<Rightarrow> ('a \<Rightarrow> 'b) \<Rightarrow> (error + 'b) \<times> world" where
  "returning p f = (case p of (Inl e, w) \<Rightarrow> (Inl e, w) | (Inr x, w) \<Rightarrow> (Inr (f x), w))"

datatype action = ACCEPT | DECLINE

record driver_response =
  dr_driverId :: string
  dr_action :: action
  dr_reason :: "string option"

record matched_driver =
  md_driverId :: string
  md_distanceKm :: rat
  md_eta :: int

record match_result =
  mr_driver :: "matched_driver option"
  mr_matched :: bool

text \<open>The object \<^verbatim>\<open>handleDriverResponse\<close> returns; an absent property is \<open>None\<close>.\<close>

record response_result =
  res_status :: string
  res_driverId :: "string option"
  res_reason :: "string option"

record ride_input =
  in_riderId :: string
  in_pickup_lat :: rat
  in_pickup_lng :: rat
  in_destination_lat :: rat
  in_destination_lng :: rat
  in_tier :: string
  in_paymentMethod :: string
  in_idempotencyKey :: string

record ride_created =
  rc_id :: string
  rc_status :: string
  rc_riderId :: string
  rc_pickup :: "rat \<times> rat"
  rc_destination :: "rat \<times> rat"
  rc_tier :: string
  rc_surgeMultiplier :: rat
  rc_estimatedFare :: rat
  rc_matchedDriver :: "matched_driver option"
  rc_matchAttempts :: int

text \<open>\<^verbatim>\<open>UPDATE ride_requests SET ... WHERE id = $1\<close>.\<close>

definition update_ride :: "string \<Rightarrow> (ride_request_row \<Rightarrow> ride_request_row) \<Rightarrow> world \<Rightarrow> world" where
  "update_ride rideId f w =
     w\<lparr>ride_requests := map (\<lambda>r. if rr_id r = rideId then f r else r) (ride_requests w)\<rparr>"

text \<open>\<^verbatim>\<open>UPDATE driver_offers SET ... WHERE ride_request_id = $1 AND driver_id = $2\<close>.\<close>

definition update_offers ::
  "string \<Rightarrow> string \<Rightarrow> (driver_offer_row \<Rightarrow> driver_offer_row) \<Rightarrow> world \<Rightarrow> world" where
  "update_offers rideId driverId f w =
     w\<lparr>driver_offers :=
         map (\<lambda>offer. if do_ride_request_id offer = rideId \<and> do_driver_id offer = driverId
                       then f offer else offer) (driver_offers w)\<rparr>"

text \<open>\<^verbatim>\<open>SELECT * FROM ride_requests WHERE id = $1\<close>, first row.\<close>

definition select_ride :: "string \<Rightarrow> world \<Rightarrow> ride_request_row option" where
  "select_ride rideId w = find (\<lambda>r. rr_id r = rideId) (ride_requests w)"

text \<open>\<^verbatim>\<open>DispatchService.calculateEstimatedFare\<close>.\<close>

definition calculateEstimatedFare :: "config \<Rightarrow> rat \<Rightarrow> rat \<Rightarrow> rat" where
  "calculateEstimatedFare cfg distanceKm surgeMultiplier =
     (let baseFare = FARE_BASE cfg;
          distanceFare = distanceKm * FARE_PER_KM cfg;
          estimatedMinutes = distanceKm * 3;
          timeFare = estimatedMinutes * FARE_PER_MINUTE cfg;
          subtotal = baseFare + distanceFare + timeFare;
          total = subtotal * surgeMultiplier
      in of_int (Math_round (total * 100)) / 100)"

text \<open>
  \<^verbatim>\<open>DispatchService.matchDriver(rideRequest, region)\<close>. The new offer's id (a fresh UUID
  in the code) and the current time are arguments.
\<close>

definition matchDriver ::
  "geodist \<Rightarrow> config \<Rightarrow> int \<Rightarrow> string \<Rightarrow> ride_request_row \<Rightarrow> string \<Rightarrow> world
     \<Rightarrow> (error + match_result) \<times> world" where
  "matchDriver gd cfg now offerId rideRequest region w =
     (let rideId = rr_id rideRequest;
          drivers = findNearbyDrivers gd w (rr_pickup_lat rideRequest) (rr_pickup_lng rideRequest)
                      (DEFAULT_SEARCH_RADIUS_KM cfg) region (Some (rr_tier rideRequest)) 10
      in case drivers of
           [] \<Rightarrow>
             (Inr \<lparr> mr_driver = None, mr_matched = False \<rparr>,
              update_ride rideId (\<lambda>r. r\<lparr>rr_status := ''NO_DRIVERS''\<rparr>) w)
         | selectedDriver # _ \<Rightarrow>
             (let offerExpiresAt = now + DRIVER_RESPONSE_TIMEOUT cfg
              in if offerId \<in> do_id ` set (driver_offers w) then (Inl UniqueViolation, w)
                 else
                   let w1 = w\<lparr>driver_offers := driver_offers w @
                              [\<lparr> do_id = offerId, do_ride_request_id = rideId,
                                 do_driver_id = nd_driverId selectedDriver,
                                 do_status = ''PENDING'', do_responded_at = None,
                                 do_decline_reason = None, do_expires_at = offerExpiresAt \<rparr>]\<rparr>;
                       w2 = update_ride rideId
                              (\<lambda>r. r\<lparr>rr_current_driver_offer_id := Some offerId,
                                      rr_driver_id := Some (nd_driverId selectedDriver),
                                      rr_match_attempts := rr_match_attempts r + 1\<rparr>) w1;
                       w3 = w2\<lparr>offer_key := (offer_key w2)(rideId \<mapsto>
                              \<lparr> oe_offerId = offerId, oe_driverId = nd_driverId selectedDriver,
                                oe_expiresAt = offerExpiresAt \<rparr>)\<rparr>;
                       w4 = publishEvent ''ride.matched'' rideId w3
                   in (Inr \<lparr> mr_driver = Some
                               \<lparr> md_driverId = nd_driverId selectedDriver,
                                 md_distanceKm = nd_distanceKm selectedDriver,
                                 md_eta = \<lceil>nd_distanceKm selectedDriver * 2\<rceil> \<rparr>,
                             mr_matched = True \<rparr>, w4)))"

text \<open>\<^verbatim>\<open>DispatchService.handleDriverResponse(rideId, {driverId, action, reason})\<close>.\<close>

definition handleDriverResponse ::
  "geodist \<Rightarrow> config \<Rightarrow> int \<Rightarrow> string \<Rightarrow> string \<Rightarrow> driver_response \<Rightarrow> world
     \<Rightarrow> (error + response_result) \<times> world" where
  "handleDriverResponse gd cfg now offerId rideId resp w =
     (case select_ride rideId w of
        None \<Rightarrow> (Inl RideNotFound, w)
      | Some ride \<Rightarrow>
          (let driverId = dr_driverId resp in
           case dr_action resp of
             ACCEPT \<Rightarrow>
               (let w1 = update_ride rideId
                           (\<lambda>r. r\<lparr>rr_status := ''ACCEPTED'', rr_driver_id := Some driverId\<rparr>) w;
                    w2 = update_offers rideId driverId
                           (\<lambda>offer. offer\<lparr>do_status := ''ACCEPTED'', do_responded_at := Some now\<rparr>) w1;
                    w3 = updateDriverStatus driverId ''ON_TRIP'' w2;
                    w4 = w3\<lparr>offer_key := (offer_key w3)(rideId := None)\<rparr>;
                    w5 = publishEvent ''ride.accepted'' rideId w4
                in (Inr \<lparr> res_status = ''ACCEPTED'', res_driverId = Some driverId,
                          res_reason = None \<rparr>, w5))
           | DECLINE \<Rightarrow>
               (let w1 = update_offers rideId driverId
                           (\<lambda>offer. offer\<lparr>do_status := ''DECLINED'', do_responded_at := Some now,
                              do_decline_reason := Some (str_or (dr_reason resp) ''Not specified'')\<rparr>) w;
                    w2 = publishEvent ''ride.declined'' rideId w1;
                    region = getRegionFromCoordinates (rr_pickup_lat ride) (rr_pickup_lng ride)
                in if MAX_MATCH_ATTEMPTS cfg \<le> rr_match_attempts ride then
                     (Inr \<lparr> res_status = ''EXPIRED'', res_driverId = None,
                            res_reason = Some ''Max match attempts reached'' \<rparr>,
                      update_ride rideId (\<lambda>r. r\<lparr>rr_status := ''EXPIRED''\<rparr>) w2)
                   else
                     let declinedDrivers =
                           map do_driver_id
                             (filter (\<lambda>offer. do_ride_request_id offer = rideId
                                               \<and> do_status offer = ''DECLINED'') (driver_offers w2));
                         drivers = findNearbyDrivers gd w2 (rr_pickup_lat ride) (rr_pickup_lng ride)
                                     (DEFAULT_SEARCH_RADIUS_KM cfg) region (Some (rr_tier ride)) 10;
                         availableDrivers =
                           filter (\<lambda>d. nd_driverId d \<notin> set declinedDrivers) drivers
                     in if availableDrivers = [] then
                          (Inr \<lparr> res_status = ''EXPIRED'', res_driverId = None,
                                 res_reason = Some ''No available drivers'' \<rparr>,
                           update_ride rideId (\<lambda>r. r\<lparr>rr_status := ''EXPIRED''\<rparr>) w2)
                        else
                          returning (matchDriver gd cfg now offerId ride region w2)
                            (\<lambda>_. \<lparr> res_status = ''REASSIGNED'', res_driverId = None,
                                   res_reason = None \<rparr>))))"

text \<open>\<^verbatim>\<open>DispatchService.checkTimeout(rideId)\<close>; the result is the \<^verbatim>\<open>timedOut\<close> flag.\<close>

definition checkTimeout ::
  "geodist \<Rightarrow> config \<Rightarrow> int \<Rightarrow> string \<Rightarrow> string \<Rightarrow> world \<Rightarrow> (error + bool) \<times> world" where
  "checkTimeout gd cfg now offerId rideId w =
     (case offer_key w rideId of
        None \<Rightarrow> (Inr False, w)
      | Some offer \<Rightarrow>
          if oe_expiresAt offer < now then
            returning
              (handleDriverResponse gd cfg now offerId rideId
                 \<lparr> dr_driverId = oe_driverId offer, dr_action = DECLINE,
                   dr_reason = Some ''Timeout'' \<rparr> w)
              (\<lambda>_. True)
          else (Inr False, w))"

text \<open>
  \<^verbatim>\<open>cancelRide\<close> of the ride controller: one unconditional \<^verbatim>\<open>UPDATE\<close>; the response
  is \<^verbatim>\<open>{status: 'CANCELLED', rideId, reason}\<close>.
\<close>

definition cancelRide :: "string \<Rightarrow> string option \<Rightarrow> world \<Rightarrow> (string \<times> string \<times> string option) \<times> world" where
  "cancelRide rideId reason w =
     ((''CANCELLED'', rideId, reason),
      update_ride rideId (\<lambda>r. r\<lparr>rr_status := ''CANCELLED''\<rparr>) w)"

text \<open>
  \<^verbatim>\<open>DispatchService.createRideRequest\<close>. The haversine distance of
  \<^verbatim>\<open>calculateDistance\<close> is the parameter \<open>hav\<close>; the ids of the new ride and of its
  first offer are arguments.
\<close>

definition createRideRequest ::
  "geodist \<Rightarrow> (rat \<Rightarrow> rat \<Rightarrow> rat \<Rightarrow> rat \<Rightarrow> rat) \<Rightarrow> config \<Rightarrow> int \<Rightarrow> string \<Rightarrow> string \<Rightarrow> ride_input
     \<Rightarrow> world \<Rightarrow> (error + ride_created) \<times> world" where
  "createRideRequest gd hav cfg now rideId offerId inp w =
     (let region = getRegionFromCoordinates (in_pickup_lat inp) (in_pickup_lng inp);
          geoCell = latLngToGeoCell (in_pickup_lat inp) (in_pickup_lng inp);
          w1 = snd (incrementDemand geoCell region w);
          surged = getSurgeForLocation gd now (in_pickup_lat inp) (in_pickup_lng inp) w1;
          surgeMultiplier = sd_surgeMultiplier (fst surged);
          w2 = snd surged;
          distanceKm = hav (in_pickup_lat inp) (in_pickup_lng inp)
                         (in_destination_lat inp) (in_destination_lng inp);
          estimatedFare = calculateEstimatedFare cfg distanceKm surgeMultiplier;
          expiresAt = now + 5 * 60 * 1000
      in if rideId \<in> rr_id ` set (ride_requests w2)
            \<or> in_idempotencyKey inp \<in> rr_idempotency_key ` set (ride_requests w2)
         then (Inl UniqueViolation, w2)
         else
           let rideRequest =
                 \<lparr> rr_id = rideId, rr_rider_id = in_riderId inp, rr_driver_id = None,
                   rr_pickup_lat = in_pickup_lat inp, rr_pickup_lng = in_pickup_lng inp,
                   rr_destination_lat = in_destination_lat inp,
                   rr_destination_lng = in_destination_lng inp,
                   rr_tier = in_tier inp, rr_payment_method = in_paymentMethod inp,
                   rr_status = ''MATCHING'', rr_surge_multiplier = surgeMultiplier,
                   rr_estimated_fare = estimatedFare,
                   rr_idempotency_key = in_idempotencyKey inp, rr_match_attempts = 0,
                   rr_current_driver_offer_id = None, rr_expires_at = expiresAt \<rparr>;
               w3 = w2\<lparr>ride_requests := ride_requests w2 @ [rideRequest]\<rparr>;
               w4 = publishEvent ''ride.requested'' rideId w3
           in returning (matchDriver gd cfg now offerId rideRequest region w4)
                (\<lambda>matchResult.
                   \<lparr> rc_id = rideId, rc_status = ''MATCHING'', rc_riderId = in_riderId inp,
                     rc_pickup = (in_pickup_lat inp, in_pickup_lng inp),
                     rc_destination = (in_destination_lat inp, in_destination_lng inp),
                     rc_tier = in_tier inp, rc_surgeMultiplier = surgeMultiplier,
                     rc_estimatedFare = estimatedFare,
                     rc_matchedDriver = mr_driver matchResult,
                     rc_matchAttempts = 1 \<rparr>))"

section \<open>Sequences of operations\<close>

text \<open>
  The operations that reach the dispatch state: the four entry points of the ride routes,
  and what the surroundings do to the keys the dispatch code reads (heartbeats, status
  changes and presence expiry rewrite the proximity index; an offer key expires).
\<close>

datatype op =
    OpCreate int string string ride_input
  | OpRespond int string string driver_response
  | OpCheckTimeout int string string
  | OpCancel string "string option"
  | OpProximity "string \<Rightarrow> geo_member list" "string \<Rightarrow> bool" "string \<Rightarrow> driver_meta"
  | OpOfferKeyExpired string

fun step :: "geodist \<Rightarrow> (rat \<Rightarrow> rat \<Rightarrow> rat \<Rightarrow> rat \<Rightarrow> rat) \<Rightarrow> config \<Rightarrow> op \<Rightarrow> world \<Rightarrow> world" where
  "step gd hav cfg (OpCreate now rideId offerId inp) w =
     snd (createRideRequest gd hav cfg now rideId offerId inp w)"
| "step gd hav cfg (OpRespond now offerId rideId resp) w =
     snd (handleDriverResponse gd cfg now offerId rideId resp w)"
| "step gd hav cfg (OpCheckTimeout now offerId rideId) w =
     snd (checkTimeout gd cfg now offerId rideId w)"
| "step gd hav cfg (OpCancel rideId reason) w = snd (cancelRide rideId reason w)"
| "step gd hav cfg (OpProximity g p m) w = w\<lparr>geo_key := g, presence_key := p, meta_key := m\<rparr>"
| "step gd hav cfg (OpOfferKeyExpired rideId) w = w\<lparr>offer_key := (offer_key w)(rideId := None)\<rparr>"

fun run :: "geodist \<Rightarrow> (rat \<Rightarrow> rat \<Rightarrow> rat \<Rightarrow> rat \<Rightarrow> rat) \<Rightarrow> config \<Rightarrow> op list \<Rightarrow> world \<Rightarrow> world" where
  "run gd hav cfg [] w = w"
| "run gd hav cfg (x # xs) w = run gd hav cfg xs (step gd hav cfg x w)"

text \<open>
  The bound on \<^verbatim>\<open>match_attempts\<close>, with the primary key of the table: ids are distinct.
\<close>

definition attempts_bounded :: "config \<Rightarrow> world \<Rightarrow> bool" where
  "attempts_bounded cfg w =
     (distinct (map rr_id (ride_requests w))
      \<and> list_all (\<lambda>r. rr_match_attempts r \<le> MAX_MATCH_ATTEMPTS cfg) (ride_requests w))"

text \<open>
  No row is lost and no row's \<^verbatim>\<open>match_attempts\<close> is lower: the rows of \<open>before\<close> are,
  in order, the first rows of \<open>after\<close>, each with the same id.
\<close>

definition attempts_not_decreased :: "ride_request_row list \<Rightarrow> ride_request_row list \<Rightarrow> bool" where
  "attempts_not_decreased before after =
     (length before \<le> length after
      \<and> list_all2 (\<lambda>r r'. rr_id r' = rr_id r \<and> rr_match_attempts r \<le> rr_match_attempts r')
           before (take (length before) after))"

text \<open>The row \<^verbatim>\<open>matchDriver\<close> inserts into \<^verbatim>\<open>driver_offers\<close>.\<close>

definition offer_row :: "config \<Rightarrow> int \<Rightarrow> string \<Rightarrow> string \<Rightarrow> string \<Rightarrow> driver_offer_row" where
  "offer_row cfg now offerId rideId driverId =
     \<lparr> do_id = offerId, do_ride_request_id = rideId, do_driver_id = driverId,
       do_status = ''PENDING'', do_responded_at = None, do_decline_reason = None,
       do_expires_at = now + DRIVER_RESPONSE_TIMEOUT cfg \<rparr>"

text \<open>The sum of \<^verbatim>\<open>match_attempts\<close> over the table.\<close>

definition total_attempts :: "world \<Rightarrow> int" where
  "total_attempts w = sum_list (map rr_match_attempts (ride_requests w))"

section \<open>Idempotency middleware\<close>

text \<open>
  \<^verbatim>\<open>middleware/idempotency.js\<close>. A request carries its method, path, body and the
  \<^verbatim>\<open>Idempotency-Key\<close> header; a reply its status, body and the headers the middleware
  sets. The body of a reply is one of the middleware's two error objects or whatever the
  handler passed to \<^verbatim>\<open>res.json\<close>.
\<close>

record 'r http_request =
  req_method :: string
  req_path :: string
  req_body :: 'r
  req_idempotency_key :: "string option"

datatype 'b reply_body = MissingIdempotencyKey | IdempotencyKeyConflict | FromHandler 'b

record 'b http_reply =
  rep_status :: nat
  rep_body :: "'b reply_body"
  rep_headers :: "(string \<times> string) list"

text \<open>The JSON value stored under \<^verbatim>\<open>idempotency:{key}\<close>.\<close>

record 'b cached_response =
  cr_statusCode :: nat
  cr_body :: 'b
  cr_requestHash :: string

text \<open>
  \<^verbatim>\<open>hashRequest\<close>: a digest (SHA-256 cut to 16 hex digits in the code, a parameter here)
  of the method, the path and the body.
\<close>

definition hashRequest :: "(string \<times> string \<times> 'r \<Rightarrow> string) \<Rightarrow> 'r http_request \<Rightarrow> string" where
  "hashRequest digest req = digest (req_method req, req_path req, req_body req)"

text \<open>
  The middleware, run to the end of the handler \<open>next\<close>: the handler takes the request
  and the state of everything it touches, and gives the status and body it sends and the new
  state. The cache of responses is the first component of the state. An empty header counts
  as missing. The write of the cache entry is taken to have completed when the next request
  arrives; a failing Redis read (the \<^verbatim>\<open>catch\<close> that calls the handler uncached) is not
  modelled.
\<close>

definition idempotencyMiddleware ::
  "bool \<Rightarrow> (string \<times> string \<times> 'r \<Rightarrow> string) \<Rightarrow> ('r http_request \<Rightarrow> 'w \<Rightarrow> (nat \<times> 'b) \<times> 'w)
     \<Rightarrow> 'r http_request \<Rightarrow> (string \<rightharpoonup> 'b cached_response) \<times> 'w
     \<Rightarrow> 'b http_reply \<times> (string \<rightharpoonup> 'b cached_response) \<times> 'w" where
  "idempotencyMiddleware required digest next req s =
     (case s of (cache, w) \<Rightarrow>
        (case (if truthy (req_idempotency_key req) then req_idempotency_key req else None) of
           None \<Rightarrow>
             (if required then
                (\<lparr> rep_status = 400, rep_body = MissingIdempotencyKey, rep_headers = [] \<rparr>,
                 (cache, w))
              else
                (case next req w of
                   ((status, body), w') \<Rightarrow>
                     (\<lparr> rep_status = status, rep_body = FromHandler body, rep_headers = [] \<rparr>,
                      (cache, w'))))
         | Some idempotencyKey \<Rightarrow>
             (case cache idempotencyKey of
                Some cached \<Rightarrow>
                  (let currentHash = hashRequest digest req in
                   if cr_requestHash cached \<noteq> currentHash then
                     (\<lparr> rep_status = 422, rep_body = IdempotencyKeyConflict,
                        rep_headers = [] \<rparr>, (cache, w))
                   else
                     (\<lparr> rep_status = 200, rep_body = FromHandler (cr_body cached),
                        rep_headers = [(''X-Idempotency-Replayed'', ''true'')] \<rparr>, (cache, w)))
              | None \<Rightarrow>
                  (case next req w of
                     ((status, body), w') \<Rightarrow>
                       (\<lparr> rep_status = status, rep_body = FromHandler body,
                          rep_headers = [] \<rparr>,
                        (cache(idempotencyKey \<mapsto>
                           \<lparr> cr_statusCode = status, cr_body = body,
                             cr_requestHash = hashRequest digest req \<rparr>), w'))))))"

text \<open>
  For concrete runs: a handler that counts its executions in the state, a digest that
  joins its three arguments, and a \<^verbatim>\<open>POST /\<close> on the rides router.
\<close>

definition counting_handler :: "string http_request \<Rightarrow> nat \<Rightarrow> (nat \<times> string) \<times> nat" where
  "counting_handler req n = ((201, ''ride for '' @ req_body req), Suc n)"

definition concat_digest :: "string \<times> string \<times> string \<Rightarrow> string" where
  "concat_digest x = (case x of (m, p, b) \<Rightarrow> m @ '' '' @ p @ '' '' @ b)"

definition post_rides :: "string \<Rightarrow> string \<Rightarrow> string http_request" where
  "post_rides k body =
     \<lparr> req_method = ''POST'', req_path = ''/'', req_body = body, req_idempotency_key = Some k \<rparr>"

section \<open>Scenes\<close>

text \<open>
  Two drivers seeded as in \<^verbatim>\<open>tests/integration/dispatch.test.js\<close>: \<open>D1\<close> at the pickup
  point, \<open>D2\<close> a little further, both \<open>ONLINE\<close> and \<open>ECONOMY\<close>; and the request of
  the tests.
\<close>

definition test_input :: ride_input where
  "test_input =
     \<lparr> in_riderId = ''R1'', in_pickup_lat = 129716 / 10000, in_pickup_lng = 775946 / 10000,
       in_destination_lat = 1298 / 100, in_destination_lng = 7761 / 100,
       in_tier = ''ECONOMY'', in_paymentMethod = ''CARD'', in_idempotencyKey = ''k1'' \<rparr>"

definition seeded_world :: world where
  "seeded_world =
     seed_driver ''bangalore'' ''D2'' (77595 / 1000) (12972 / 1000) ''ONLINE'' ''ECONOMY''
       (seed_driver ''bangalore'' ''D1'' (775946 / 10000) (129716 / 10000) ''ONLINE'' ''ECONOMY''
          empty_world)"

text \<open>
  The state after that request was created at time 1000 with ids \<open>ride-1\<close> and
  \<open>offer-1\<close>: the ride row, its first offer (to \<open>D1\<close>, the nearest) and the offer key.
\<close>

definition ride_1 :: ride_request_row where
  "ride_1 =
     \<lparr> rr_id = ''ride-1'', rr_rider_id = ''R1'', rr_driver_id = Some ''D1'',
       rr_pickup_lat = 129716 / 10000, rr_pickup_lng = 775946 / 10000,
       rr_destination_lat = 1298 / 100, rr_destination_lng = 7761 / 100,
       rr_tier = ''ECONOMY'', rr_payment_method = ''CARD'',
       rr_status = ''MATCHING'', rr_surge_multiplier = 1,
       rr_estimated_fare = 5043 / 100, rr_idempotency_key = ''k1'',
       rr_match_attempts = 1, rr_current_driver_offer_id = Some ''offer-1'',
       rr_expires_at = 301000 \<rparr>"

definition offer_1 :: driver_offer_row where
  "offer_1 =
     \<lparr> do_id = ''offer-1'', do_ride_request_id = ''ride-1'', do_driver_id = ''D1'',
       do_status = ''PENDING'', do_responded_at = None, do_decline_reason = None,
       do_expires_at = 16000 \<rparr>"

definition offered_world :: world where
  "offered_world =
     seeded_world
       \<lparr> ride_requests := [ride_1], driver_offers := [offer_1],
         offer_key := [''ride-1'' \<mapsto>
           \<lparr> oe_offerId = ''offer-1'', oe_driverId = ''D1'', oe_expiresAt = 16000 \<rparr>],
         demand_key := [''h3_81297177594ffffff'' \<mapsto> 1],
         surge_key := [''h3_81297177594ffffff'' \<mapsto>
           \<lparr> se_multiplier = 1, se_supply = 2, se_demand = 1, se_region = ''bangalore'',
             se_updatedAt = 1000 \<rparr>],
         surge_cells_key := (\<lambda>_. [])(''bangalore'' := [''h3_81297177594ffffff'']),
         published := [(''surge.updated'', ''h3_81297177594ffffff''),
                       (''ride.requested'', ''ride-1''), (''ride.matched'', ''ride-1'')] \<rparr>"

text \<open>The same state with the ride at the maximum of attempts.\<close>

definition maxed_world :: world where
  "maxed_world = offered_world\<lparr>ride_requests := [ride_1\<lparr>rr_match_attempts := 5\<rparr>]\<rparr>"

text \<open>The state after \<open>D1\<close> accepted the offer at time 2000.\<close>

definition accepted_world :: world where
  "accepted_world =
     snd (handleDriverResponse grid_dist default_config 2000 ''offer-2'' ''ride-1''
            \<lparr> dr_driverId = ''D1'', dr_action = ACCEPT, dr_reason = None \<rparr> offered_world)"

text \<open>The offered state with the key \<^verbatim>\<open>lock:ride:ride-1\<close> held.\<close>

definition locked_world :: world where
  "locked_world = offered_world\<lparr>lock_key := (lock_key offered_world)(''ride-1'' := True)\<rparr>"

text \<open>The offered state after the offer key's time to live ran out.\<close>

definition key_expired_world :: world where
  "key_expired_world = offered_world\<lparr>offer_key := Map.empty\<rparr>"

text \<open>The terminal statuses of the specification.\<close>

definition spec_terminal :: "string \<Rightarrow> bool" where
  "spec_terminal s = (s \<in> set [''ACCEPTED'', ''NO_DRIVERS'', ''FAILED'', ''EXPIRED'', ''CANCELLED''])"

text \<open>
  A scene for the proximity index: three drivers in the geo set of one region, at distances
  0, 1 and 2 from the origin, of which only the farthest is \<open>ONLINE\<close>.
\<close>

definition far_world :: world where
  "far_world =
     seed_driver ''bangalore'' ''D3'' 2 0 ''ONLINE'' ''ECONOMY''
       (seed_driver ''bangalore'' ''D2'' 1 0 ''OFFLINE'' ''ECONOMY''
         (seed_driver ''bangalore'' ''D1'' 0 0 ''ON_TRIP'' ''ECONOMY'' empty_world))"

section \<open>Surge pricing: properties\<close>

lemma surge_clamped_bounds:
  "1 \<le> min SURGE_MAX (max SURGE_MIN x) \<and> min SURGE_MAX (max SURGE_MIN x) \<le> 3"
  by (simp add: SURGE_MIN_def SURGE_MAX_def)

lemma round_tenth_bounds:
  fixes y :: rat
  assumes "1 \<le> y" and "y \<le> 3"
  shows "1 \<le> of_int (Math_round (y * 10)) / (10::rat)"
    and "of_int (Math_round (y * 10)) / (10::rat) \<le> 3"
proof -
  have lo: "(10::int) \<le> \<lfloor>y * 10 + 1 / 2\<rfloor>"
    using assms(1) by (simp add: le_floor_iff)
  have hi: "\<lfloor>y * 10 + 1 / 2\<rfloor> \<le> (30::int)"
  proof -
    have "y * 10 + 1 / 2 < of_int (31::int)" using assms(2) by simp
    then have "\<lfloor>y * 10 + 1 / 2\<rfloor> < (31::int)" by (simp only: floor_less_iff)
    then show ?thesis by simp
  qed
  have "(10::rat) \<le> of_int \<lfloor>y * 10 + 1 / 2\<rfloor>"
    using lo by (metis of_int_le_iff of_int_numeral)
  then show "1 \<le> of_int (Math_round (y * 10)) / (10::rat)"
    by (simp add: Math_round_def)
  have "of_int \<lfloor>y * 10 + 1 / 2\<rfloor> \<le> (30::rat)"
    using hi by (metis of_int_le_iff of_int_numeral)
  then show "of_int (Math_round (y * 10)) / (10::rat) \<le> 3"
    by (simp add: Math_round_def)
qed

lemma computeSurgeMultiplier_range:
  "1 \<le> computeSurgeMultiplier s d \<and> computeSurgeMultiplier s d \<le> 3"
proof (cases "s = 0")
  case True
  then show ?thesis
    by (simp add: computeSurgeMultiplier_def SURGE_MIN_def SURGE_MAX_def)
next
  case False
  define y where "y = min SURGE_MAX (max SURGE_MIN (1 + (of_nat d / of_nat s - 1) * (1 / 2)))"
  have b: "1 \<le> y \<and> y \<le> 3"
    unfolding y_def by (rule surge_clamped_bounds)
  have e: "computeSurgeMultiplier s d = of_int (Math_round (y * 10)) / 10"
    using False by (simp add: computeSurgeMultiplier_def Let_def y_def)
  show ?thesis
    unfolding e using round_tenth_bounds [of y] b by simp
qed

lemma computeSurgeMultiplier_tenths:
  "\<exists>k::int. computeSurgeMultiplier s d = of_int k / 10"
proof (cases "s = 0")
  case True
  have "(1::rat) = of_int 10 / 10" and "(3::rat) = of_int 30 / 10" by simp_all
  then show ?thesis
    using True unfolding computeSurgeMultiplier_def SURGE_MIN_def SURGE_MAX_def
    by (metis (full_types))
next
  case False
  then show ?thesis
    unfolding computeSurgeMultiplier_def Let_def by (simp only: if_False simp_thms) blast
qed

lemma surge_clamp_eq:
  "min SURGE_MAX (max SURGE_MIN x) = spec_clamp x 1 3"
  by (simp add: spec_clamp_def SURGE_MIN_def SURGE_MAX_def min_def max_def)

lemma computeSurgeMultiplier_formula:
  assumes "0 < s"
  shows "computeSurgeMultiplier s d = spec_multiplier s d"
proof -
  have "computeSurgeMultiplier s d =
      of_int (Math_round (min SURGE_MAX (max SURGE_MIN
        (1 + (of_nat d / of_nat s - 1) * (1 / 2))) * 10)) / 10"
    using assms by (simp add: computeSurgeMultiplier_def Let_def)
  also have "\<dots> = spec_multiplier s d"
    unfolding surge_clamp_eq spec_multiplier_def spec_round_one_decimal_def
      Math_round_def round_def by (rule refl)
  finally show ?thesis .
qed

text \<open>
  Claim C6. \<^verbatim>\<open>computeSurgeMultiplier(supply, demand)\<close> is the specification's formula
  (the clamped, smoothed ratio rounded to one decimal) when supply is positive, 1.0 when
  supply and demand are both zero, and 3.0 when supply is zero and demand is positive;
  (10, 10) gives 1.0 and (1, 100) gives 3.0; every result lies in [1.0, 3.0] and is a
  multiple of 0.1.
\<close>

theorem C6_computeSurgeMultiplier:
  "(0 < supply \<longrightarrow> computeSurgeMultiplier supply demand = spec_multiplier supply demand)
   \<and> computeSurgeMultiplier 0 0 = 1
   \<and> (0 < demand \<longrightarrow> computeSurgeMultiplier 0 demand = 3)
   \<and> computeSurgeMultiplier 10 10 = 1
   \<and> computeSurgeMultiplier 1 100 = 3
   \<and> 1 \<le> computeSurgeMultiplier supply demand
   \<and> computeSurgeMultiplier supply demand \<le> 3
   \<and> (\<exists>k::int. computeSurgeMultiplier supply demand = of_int k / 10)"
proof -
  have a: "0 < supply \<longrightarrow> computeSurgeMultiplier supply demand = spec_multiplier supply demand"
    by (simp add: computeSurgeMultiplier_formula)
  have b: "computeSurgeMultiplier 0 0 = 1"
    by (simp add: computeSurgeMultiplier_def SURGE_MIN_def)
  have c: "0 < demand \<longrightarrow> computeSurgeMultiplier 0 demand = 3"
    by (simp add: computeSurgeMultiplier_def SURGE_MAX_def)
  have d: "computeSurgeMultiplier 10 10 = 1"
    by code_simp
  have e: "computeSurgeMultiplier 1 100 = 3"
    by code_simp
  show ?thesis
    using a b c d e computeSurgeMultiplier_range [of "supply" "demand"]
      computeSurgeMultiplier_tenths [of "supply" "demand"]
    by blast
qed

theorem C6_computeSurgeMultiplier_witness:
  "0 < (4::nat) \<and> 0 < (7::nat)
   \<and> computeSurgeMultiplier 4 7 = spec_multiplier 4 7
   \<and> computeSurgeMultiplier 4 7 = 14 / 10
   \<and> computeSurgeMultiplier 0 7 = 3"
proof -
  have v: "computeSurgeMultiplier 4 7 = 14 / 10"
    by code_simp
  show ?thesis
    using C6_computeSurgeMultiplier [of 4 7] v by simp
qed

section \<open>Proximity index: properties\<close>

lemma nearby_loop_eq:
  "length acc < limit \<Longrightarrow>
   nearby_loop w vt limit rs acc =
     acc @ take (limit - length acc) (map (nearby_entry w) (filter (nearby_keep w vt) rs))"
proof (induction rs arbitrary: acc)
  case Nil
  then show ?case by simp
next
  case (Cons r rs)
  show ?case
  proof (cases "nearby_keep w vt r")
    case False
    then show ?thesis using Cons by simp
  next
    case True
    show ?thesis
    proof (cases "limit \<le> Suc (length acc)")
      case full: True
      with Cons.prems have "limit - length acc = Suc 0" by simp
      then show ?thesis using True full by simp
    next
      case more: False
      then have lt: "length (acc @ [nearby_entry w r]) < limit" by simp
      obtain n where n: "limit - length acc = Suc n"
        using Cons.prems by (metis Suc_diff_Suc)
      then have n': "limit - length (acc @ [nearby_entry w r]) = n" by simp
      show ?thesis
        using True more Cons.IH [OF lt] n n' by simp
    qed
  qed
qed

lemma findNearbyDrivers_eq:
  "findNearbyDrivers gd w latitude longitude radiusKm region vt limit =
     take limit (map (nearby_entry w) (filter (nearby_keep w vt)
       (georadius_asc_count gd (geo_key w region) longitude latitude radiusKm (limit * 2))))"
proof (cases "limit = 0")
  case True
  then show ?thesis by (simp add: findNearbyDrivers_def georadius_asc_count_def)
next
  case False
  then have "length ([]::nearby_driver list) < limit" by simp
  from nearby_loop_eq [OF this] show ?thesis
    by (simp add: findNearbyDrivers_def)
qed

lemma georadius_member:
  "r \<in> set (georadius gd members lng lat radiusKm) \<Longrightarrow>
     gr_distance r \<le> radiusKm \<and>
     (\<exists>m \<in> set members. fst r = gm_member m \<and> gr_distance r = gd lng lat (gm_lng m) (gm_lat m))"
  by (auto simp: georadius_def gr_distance_def)

lemma georadius_asc_count_subset:
  "set (georadius_asc_count gd members lng lat radiusKm n) \<subseteq> set (georadius gd members lng lat radiusKm)"
  unfolding georadius_asc_count_def
  by (metis set_take_subset set_sort)

lemma nearby_entry_fields:
  "nd_driverId (nearby_entry w r) = fst r"
  "nd_distanceKm (nearby_entry w r) = gr_distance r"
  "nd_status (nearby_entry w r) = meta_status (meta_key w (fst r))"
  "nd_vehicleType (nearby_entry w r) = str_or (meta_vehicleType (meta_key w (fst r))) ''ECONOMY''"
  by (cases r; simp add: nearby_entry_def gr_distance_def)+

lemma nearby_keep_iff:
  "nearby_keep w vt r \<longleftrightarrow>
     presence_key w (fst r) \<and> meta_status (meta_key w (fst r)) = Some ''ONLINE'' \<and>
     (truthy vt \<longrightarrow> Some (str_or (meta_vehicleType (meta_key w (fst r))) ''ECONOMY'') = vt)"
  by (simp add: nearby_keep_def Let_def)

lemma findNearbyDrivers_sound:
  assumes "d \<in> set (findNearbyDrivers gd w latitude longitude radiusKm region vt limit)"
  shows "nd_distanceKm d \<le> radiusKm \<and> nd_status d = Some ''ONLINE''
     \<and> presence_key w (nd_driverId d)
     \<and> (truthy vt \<longrightarrow> Some (nd_vehicleType d) = vt)
     \<and> nd_driverId d \<in> gm_member ` set (geo_key w region)"
proof -
  from assms obtain r where r: "d = nearby_entry w r" "nearby_keep w vt r"
    "r \<in> set (georadius_asc_count gd (geo_key w region) longitude latitude radiusKm (limit * 2))"
    unfolding findNearbyDrivers_eq by (auto dest!: in_set_takeD)
  from r(3) georadius_asc_count_subset
  have "r \<in> set (georadius gd (geo_key w region) longitude latitude radiusKm)" by blast
  from georadius_member [OF this] r(1,2) show ?thesis
    by (auto simp: nearby_entry_fields nearby_keep_iff)
qed

lemma findNearbyDrivers_sorted:
  "sorted (map nd_distanceKm (findNearbyDrivers gd w latitude longitude radiusKm region vt limit))"
proof -
  let ?xs = "georadius gd (geo_key w region) longitude latitude radiusKm"
  have e: "nd_distanceKm \<circ> nearby_entry w = gr_distance"
    by (rule ext) (simp add: nearby_entry_fields)
  have "sorted (map gr_distance (sort_key gr_distance ?xs))" by (rule sorted_sort_key)
  then have "sorted (take (limit * 2) (map gr_distance (sort_key gr_distance ?xs)))"
    by (rule sorted_wrt_take)
  then have "sorted (map gr_distance (take (limit * 2) (sort_key gr_distance ?xs)))"
    by (simp add: take_map)
  then have "sorted (map gr_distance (filter (nearby_keep w vt) (take (limit * 2) (sort_key gr_distance ?xs))))"
    by (rule sorted_filter)
  then have "sorted (take limit (map gr_distance (filter (nearby_keep w vt) (take (limit * 2) (sort_key gr_distance ?xs)))))"
    by (rule sorted_wrt_take)
  then show ?thesis
    unfolding findNearbyDrivers_eq georadius_asc_count_def
    by (simp add: take_map e)
qed

lemma findNearbyDrivers_length:
  "length (findNearbyDrivers gd w latitude longitude radiusKm region vt limit) \<le> limit"
  unfolding findNearbyDrivers_eq by simp

lemma spec_satisfies_keep:
  "spec_satisfies gd w latitude longitude radiusKm vt m \<longleftrightarrow>
     gd longitude latitude (gm_lng m) (gm_lat m) \<le> radiusKm \<and>
     nearby_keep w vt (gm_member m, gd longitude latitude (gm_lng m) (gm_lat m), gm_lng m, gm_lat m)"
  by (auto simp: spec_satisfies_def nearby_keep_iff)

lemma findNearbyDrivers_complete:
  assumes m: "m \<in> set (geo_key w region)"
    and sat: "spec_satisfies gd w latitude longitude radiusKm vt m"
    and near: "(gm_member m, gd longitude latitude (gm_lng m) (gm_lat m), gm_lng m, gm_lat m)
       \<in> set (georadius_asc_count gd (geo_key w region) longitude latitude radiusKm (limit * 2))"
  shows "gm_member m \<in> nd_driverId ` set (findNearbyDrivers gd w latitude longitude radiusKm region vt limit)
     \<or> length (findNearbyDrivers gd w latitude longitude radiusKm region vt limit) = limit"
proof -
  let ?r = "(gm_member m, gd longitude latitude (gm_lng m) (gm_lat m), gm_lng m, gm_lat m)"
  let ?L = "map (nearby_entry w) (filter (nearby_keep w vt)
       (georadius_asc_count gd (geo_key w region) longitude latitude radiusKm (limit * 2)))"
  have k: "nearby_keep w vt ?r" using sat by (simp add: spec_satisfies_keep)
  then have inL: "nearby_entry w ?r \<in> set ?L" using near by simp
  show ?thesis
  proof (cases "length ?L \<le> limit")
    case True
    then have "findNearbyDrivers gd w latitude longitude radiusKm region vt limit = ?L"
      unfolding findNearbyDrivers_eq by simp
    with inL have "nd_driverId (nearby_entry w ?r)
        \<in> nd_driverId ` set (findNearbyDrivers gd w latitude longitude radiusKm region vt limit)"
      by simp
    then show ?thesis by (simp add: nearby_entry_fields)
  next
    case False
    then show ?thesis unfolding findNearbyDrivers_eq by simp
  qed
qed

lemma georadius_asc_count_all:
  assumes "length (georadius gd members lng lat radiusKm) \<le> n"
  shows "set (georadius_asc_count gd members lng lat radiusKm n) = set (georadius gd members lng lat radiusKm)"
  using assms by (simp add: georadius_asc_count_def)

lemma georadius_in:
  "m \<in> set members \<Longrightarrow> gd lng lat (gm_lng m) (gm_lat m) \<le> radiusKm \<Longrightarrow>
     (gm_member m, gd lng lat (gm_lng m) (gm_lat m), gm_lng m, gm_lat m)
       \<in> set (georadius gd members lng lat radiusKm)"
  by (auto simp: georadius_def)

text \<open>
  Claim C7, as the code has it. Every driver returned by \<^verbatim>\<open>findNearbyDrivers\<close> is within
  the radius, \<open>ONLINE\<close>, has a presence marker and is of the tier asked for (if one is);
  the list is ascending by distance and has at most \<open>limit\<close> entries. It is the first
  \<open>limit\<close> drivers passing the filters among the \<open>2 * limit\<close> nearest geo entries within
  the radius: a driver satisfying the filters appears (up to the limit) if it is among those
  \<open>2 * limit\<close> nearest, so every such driver appears when at most \<open>2 * limit\<close> entries
  lie within the radius.
\<close>

theorem C7_findNearbyDrivers_nearest_window:
  "(\<forall>d \<in> set (findNearbyDrivers gd w latitude longitude radiusKm region vt limit).
       nd_distanceKm d \<le> radiusKm \<and> nd_status d = Some ''ONLINE''
       \<and> presence_key w (nd_driverId d)
       \<and> (truthy vt \<longrightarrow> Some (nd_vehicleType d) = vt))
   \<and> sorted (map nd_distanceKm (findNearbyDrivers gd w latitude longitude radiusKm region vt limit))
   \<and> length (findNearbyDrivers gd w latitude longitude radiusKm region vt limit) \<le> limit
   \<and> findNearbyDrivers gd w latitude longitude radiusKm region vt limit =
       take limit (map (nearby_entry w) (filter (nearby_keep w vt)
         (georadius_asc_count gd (geo_key w region) longitude latitude radiusKm (limit * 2))))
   \<and> (\<forall>m \<in> set (geo_key w region).
         spec_satisfies gd w latitude longitude radiusKm vt m
         \<and> (gm_member m, gd longitude latitude (gm_lng m) (gm_lat m), gm_lng m, gm_lat m)
             \<in> set (georadius_asc_count gd (geo_key w region) longitude latitude radiusKm (limit * 2))
         \<longrightarrow> gm_member m \<in> nd_driverId ` set (findNearbyDrivers gd w latitude longitude radiusKm region vt limit)
             \<or> length (findNearbyDrivers gd w latitude longitude radiusKm region vt limit) = limit)
   \<and> (length (georadius gd (geo_key w region) longitude latitude radiusKm) \<le> limit * 2 \<longrightarrow>
       (\<forall>m \<in> set (geo_key w region).
         spec_satisfies gd w latitude longitude radiusKm vt m
         \<longrightarrow> gm_member m \<in> nd_driverId ` set (findNearbyDrivers gd w latitude longitude radiusKm region vt limit)
             \<or> length (findNearbyDrivers gd w latitude longitude radiusKm region vt limit) = limit))"
proof -
  have a: "\<forall>d \<in> set (findNearbyDrivers gd w latitude longitude radiusKm region vt limit).
       nd_distanceKm d \<le> radiusKm \<and> nd_status d = Some ''ONLINE''
       \<and> presence_key w (nd_driverId d)
       \<and> (truthy vt \<longrightarrow> Some (nd_vehicleType d) = vt)"
    using findNearbyDrivers_sound by blast
  have e: "\<forall>m \<in> set (geo_key w region).
         spec_satisfies gd w latitude longitude radiusKm vt m
         \<and> (gm_member m, gd longitude latitude (gm_lng m) (gm_lat m), gm_lng m, gm_lat m)
             \<in> set (georadius_asc_count gd (geo_key w region) longitude latitude radiusKm (limit * 2))
         \<longrightarrow> gm_member m \<in> nd_driverId ` set (findNearbyDrivers gd w latitude longitude radiusKm region vt limit)
             \<or> length (findNearbyDrivers gd w latitude longitude radiusKm region vt limit) = limit"
    using findNearbyDrivers_complete by blast
  have f: "length (georadius gd (geo_key w region) longitude latitude radiusKm) \<le> limit * 2 \<longrightarrow>
       (\<forall>m \<in> set (geo_key w region).
         spec_satisfies gd w latitude longitude radiusKm vt m
         \<longrightarrow> gm_member m \<in> nd_driverId ` set (findNearbyDrivers gd w latitude longitude radiusKm region vt limit)
             \<or> length (findNearbyDrivers gd w latitude longitude radiusKm region vt limit) = limit)"
  proof (intro impI ballI)
    fix m
    assume len: "length (georadius gd (geo_key w region) longitude latitude radiusKm) \<le> limit * 2"
      and m: "m \<in> set (geo_key w region)"
      and sat: "spec_satisfies gd w latitude longitude radiusKm vt m"
    from sat have "gd longitude latitude (gm_lng m) (gm_lat m) \<le> radiusKm"
      by (simp add: spec_satisfies_keep)
    from georadius_in [of m "geo_key w region" gd longitude latitude radiusKm, OF m this]
      georadius_asc_count_all [OF len]
    have "(gm_member m, gd longitude latitude (gm_lng m) (gm_lat m), gm_lng m, gm_lat m)
       \<in> set (georadius_asc_count gd (geo_key w region) longitude latitude radiusKm (limit * 2))"
      by simp
    from findNearbyDrivers_complete [OF m sat this]
    show "gm_member m \<in> nd_driverId ` set (findNearbyDrivers gd w latitude longitude radiusKm region vt limit)
        \<or> length (findNearbyDrivers gd w latitude longitude radiusKm region vt limit) = limit" .
  qed
  show ?thesis
    using a findNearbyDrivers_sorted [of gd w latitude longitude radiusKm region vt limit]
      findNearbyDrivers_length [of gd w latitude longitude radiusKm region vt limit]
      findNearbyDrivers_eq [of gd w latitude longitude radiusKm region vt limit] e f
    by (intro conjI)
qed

theorem C7_findNearbyDrivers_nearest_window_witness:
  "findNearbyDrivers grid_dist far_world 0 0 5 ''bangalore'' (Some ''ECONOMY'') 2
     = [\<lparr> nd_driverId = ''D3'', nd_distanceKm = 2, nd_latitude = 0, nd_longitude = 2,
          nd_vehicleType = ''ECONOMY'', nd_status = Some ''ONLINE'', nd_heading = 0,
          nd_speed = 0 \<rparr>]
   \<and> \<lparr> gm_member = ''D3'', gm_lng = 2, gm_lat = 0 \<rparr> \<in> set (geo_key far_world ''bangalore'')
   \<and> spec_satisfies grid_dist far_world 0 0 5 (Some ''ECONOMY'')
        \<lparr> gm_member = ''D3'', gm_lng = 2, gm_lat = 0 \<rparr>
   \<and> length (georadius grid_dist (geo_key far_world ''bangalore'') 0 0 5) \<le> 2 * 2
   \<and> truthy (Some ''ECONOMY'')
   \<and> sorted (map nd_distanceKm
        (findNearbyDrivers grid_dist far_world 0 0 5 ''bangalore'' (Some ''ECONOMY'') 2))
   \<and> ''D3'' \<in> nd_driverId `
        set (findNearbyDrivers grid_dist far_world 0 0 5 ''bangalore'' (Some ''ECONOMY'') 2)"
proof -
  have v: "findNearbyDrivers grid_dist far_world 0 0 5 ''bangalore'' (Some ''ECONOMY'') 2
     = [\<lparr> nd_driverId = ''D3'', nd_distanceKm = 2, nd_latitude = 0, nd_longitude = 2,
          nd_vehicleType = ''ECONOMY'', nd_status = Some ''ONLINE'', nd_heading = 0,
          nd_speed = 0 \<rparr>]"
    by code_simp
  have m: "\<lparr> gm_member = ''D3'', gm_lng = 2, gm_lat = 0 \<rparr> \<in> set (geo_key far_world ''bangalore'')"
    by code_simp
  have s: "spec_satisfies grid_dist far_world 0 0 5 (Some ''ECONOMY'')
        \<lparr> gm_member = ''D3'', gm_lng = 2, gm_lat = 0 \<rparr>"
    by code_simp
  have l: "length (georadius grid_dist (geo_key far_world ''bangalore'') 0 0 5) \<le> 2 * 2"
    by code_simp
  have t: "truthy (Some ''ECONOMY'')"
    by (simp add: truthy_def)
  note T = C7_findNearbyDrivers_nearest_window
      [of grid_dist far_world 0 0 5 "''bangalore''" "Some ''ECONOMY''" 2]
  have srt: "sorted (map nd_distanceKm
        (findNearbyDrivers grid_dist far_world 0 0 5 ''bangalore'' (Some ''ECONOMY'') 2))"
    by (rule T [THEN conjunct2, THEN conjunct1])
  have d3: "''D3'' \<in> nd_driverId `
        set (findNearbyDrivers grid_dist far_world 0 0 5 ''bangalore'' (Some ''ECONOMY'') 2)"
    unfolding v by simp
  show ?thesis
    by (intro conjI) (rule v m s l t srt d3)+
qed

text \<open>
  The claim as stated fails: with \<open>limit = 1\<close> only the two nearest entries are looked at,
  both are filtered out, and the \<open>ONLINE\<close> driver \<open>D3\<close> within the radius is not returned
  although the list is not full.
\<close>

theorem C7_findNearbyDrivers_counterexample:
  "findNearbyDrivers grid_dist far_world 0 0 5 ''bangalore'' None 1 = []
   \<and> \<lparr> gm_member = ''D3'', gm_lng = 2, gm_lat = 0 \<rparr> \<in> set (geo_key far_world ''bangalore'')
   \<and> spec_satisfies grid_dist far_world 0 0 5 None \<lparr> gm_member = ''D3'', gm_lng = 2, gm_lat = 0 \<rparr>
   \<and> length (findNearbyDrivers grid_dist far_world 0 0 5 ''bangalore'' None 1) < 1"
proof -
  have v: "findNearbyDrivers grid_dist far_world 0 0 5 ''bangalore'' None 1 = []"
    by code_simp
  have m: "\<lparr> gm_member = ''D3'', gm_lng = 2, gm_lat = 0 \<rparr> \<in> set (geo_key far_world ''bangalore'')"
    by code_simp
  have s: "spec_satisfies grid_dist far_world 0 0 5 None \<lparr> gm_member = ''D3'', gm_lng = 2, gm_lat = 0 \<rparr>"
    by code_simp
  show ?thesis using v m s by simp
qed

section \<open>Dispatch: effects of the operations on the stores\<close>


lemma returning_simps [simp]:
  "snd (returning p f) = snd p"
  "fst (returning p f) = (case fst p of Inl e \<Rightarrow> Inl e | Inr x \<Rightarrow> Inr (f x))"
  by (auto simp: returning_def split: prod.split sum.split)

lemma publishEvent_fields [simp]:
  "ride_requests (publishEvent t k w) = ride_requests w"
  "driver_offers (publishEvent t k w) = driver_offers w"
  "offer_key (publishEvent t k w) = offer_key w"
  "geo_key (publishEvent t k w) = geo_key w"
  "presence_key (publishEvent t k w) = presence_key w"
  "meta_key (publishEvent t k w) = meta_key w"
  "lock_key (publishEvent t k w) = lock_key w"
  by (simp_all add: publishEvent_def)

lemma update_ride_fields [simp]:
  "ride_requests (update_ride i f w) = map (\<lambda>r. if rr_id r = i then f r else r) (ride_requests w)"
  "driver_offers (update_ride i f w) = driver_offers w"
  "offer_key (update_ride i f w) = offer_key w"
  "geo_key (update_ride i f w) = geo_key w"
  "presence_key (update_ride i f w) = presence_key w"
  "meta_key (update_ride i f w) = meta_key w"
  "lock_key (update_ride i f w) = lock_key w"
  "published (update_ride i f w) = published w"
  by (simp_all add: update_ride_def)

lemma update_offers_fields [simp]:
  "ride_requests (update_offers i d f w) = ride_requests w"
  "driver_offers (update_offers i d f w) =
     map (\<lambda>offer. if do_ride_request_id offer = i \<and> do_driver_id offer = d then f offer else offer)
       (driver_offers w)"
  "offer_key (update_offers i d f w) = offer_key w"
  "geo_key (update_offers i d f w) = geo_key w"
  "presence_key (update_offers i d f w) = presence_key w"
  "meta_key (update_offers i d f w) = meta_key w"
  "lock_key (update_offers i d f w) = lock_key w"
  "published (update_offers i d f w) = published w"
  by (simp_all add: update_offers_def)

lemma updateDriverStatus_fields [simp]:
  "ride_requests (updateDriverStatus d s w) = ride_requests w"
  "driver_offers (updateDriverStatus d s w) = driver_offers w"
  "offer_key (updateDriverStatus d s w) = offer_key w"
  "geo_key (updateDriverStatus d s w) = geo_key w"
  "presence_key (updateDriverStatus d s w) = presence_key w"
  "lock_key (updateDriverStatus d s w) = lock_key w"
  by (simp_all add: updateDriverStatus_def)

lemma incrementDemand_fields [simp]:
  "ride_requests (snd (incrementDemand c r w)) = ride_requests w"
  "driver_offers (snd (incrementDemand c r w)) = driver_offers w"
  "offer_key (snd (incrementDemand c r w)) = offer_key w"
  "geo_key (snd (incrementDemand c r w)) = geo_key w"
  "presence_key (snd (incrementDemand c r w)) = presence_key w"
  "meta_key (snd (incrementDemand c r w)) = meta_key w"
  "lock_key (snd (incrementDemand c r w)) = lock_key w"
  by (simp_all add: incrementDemand_def Let_def)

lemma calculateSurge_fields [simp]:
  "ride_requests (snd (calculateSurge gd now c r la lo w)) = ride_requests w"
  "driver_offers (snd (calculateSurge gd now c r la lo w)) = driver_offers w"
  "offer_key (snd (calculateSurge gd now c r la lo w)) = offer_key w"
  "geo_key (snd (calculateSurge gd now c r la lo w)) = geo_key w"
  "presence_key (snd (calculateSurge gd now c r la lo w)) = presence_key w"
  "meta_key (snd (calculateSurge gd now c r la lo w)) = meta_key w"
  "lock_key (snd (calculateSurge gd now c r la lo w)) = lock_key w"
  by (simp_all add: calculateSurge_def Let_def)

lemma getSurgeForLocation_fields [simp]:
  "ride_requests (snd (getSurgeForLocation gd now la lo w)) = ride_requests w"
  "driver_offers (snd (getSurgeForLocation gd now la lo w)) = driver_offers w"
  "offer_key (snd (getSurgeForLocation gd now la lo w)) = offer_key w"
  "geo_key (snd (getSurgeForLocation gd now la lo w)) = geo_key w"
  "presence_key (snd (getSurgeForLocation gd now la lo w)) = presence_key w"
  "meta_key (snd (getSurgeForLocation gd now la lo w)) = meta_key w"
  "lock_key (snd (getSurgeForLocation gd now la lo w)) = lock_key w"
  by (simp_all add: getSurgeForLocation_def Let_def)

lemma findNearbyDrivers_frame:
  assumes "geo_key w' = geo_key w" "presence_key w' = presence_key w" "meta_key w' = meta_key w"
  shows "findNearbyDrivers gd w' = findNearbyDrivers gd w"
proof -
  have k: "nearby_keep w' = nearby_keep w"
    by (intro ext) (simp add: nearby_keep_def assms)
  have e: "nearby_entry w' = nearby_entry w"
    by (intro ext) (simp add: nearby_entry_def assms)
  show ?thesis
    by (intro ext) (simp add: findNearbyDrivers_eq k e assms)
qed


lemma matchDriver_none:
  assumes "findNearbyDrivers gd w (rr_pickup_lat ride) (rr_pickup_lng ride)
             (DEFAULT_SEARCH_RADIUS_KM cfg) region (Some (rr_tier ride)) 10 = []"
  shows "matchDriver gd cfg now offerId ride region w =
     (Inr \<lparr> mr_driver = None, mr_matched = False \<rparr>,
      update_ride (rr_id ride) (\<lambda>r. r\<lparr>rr_status := ''NO_DRIVERS''\<rparr>) w)"
  using assms by (simp add: matchDriver_def)

lemma matchDriver_duplicate:
  assumes "findNearbyDrivers gd w (rr_pickup_lat ride) (rr_pickup_lng ride)
             (DEFAULT_SEARCH_RADIUS_KM cfg) region (Some (rr_tier ride)) 10 = d # ds"
    and "offerId \<in> do_id ` set (driver_offers w)"
  shows "matchDriver gd cfg now offerId ride region w = (Inl UniqueViolation, w)"
  using assms by (simp add: matchDriver_def)

lemma matchDriver_offer:
  assumes "findNearbyDrivers gd w (rr_pickup_lat ride) (rr_pickup_lng ride)
             (DEFAULT_SEARCH_RADIUS_KM cfg) region (Some (rr_tier ride)) 10 = d # ds"
    and "offerId \<notin> do_id ` set (driver_offers w)"
  shows "fst (matchDriver gd cfg now offerId ride region w) =
       Inr \<lparr> mr_driver = Some \<lparr> md_driverId = nd_driverId d, md_distanceKm = nd_distanceKm d,
                                md_eta = \<lceil>nd_distanceKm d * 2\<rceil> \<rparr>, mr_matched = True \<rparr>"
    and "ride_requests (snd (matchDriver gd cfg now offerId ride region w)) =
       map (\<lambda>r. if rr_id r = rr_id ride
                 then r\<lparr>rr_current_driver_offer_id := Some offerId,
                        rr_driver_id := Some (nd_driverId d),
                        rr_match_attempts := rr_match_attempts r + 1\<rparr>
                 else r) (ride_requests w)"
    and "driver_offers (snd (matchDriver gd cfg now offerId ride region w)) =
       driver_offers w @ [offer_row cfg now offerId (rr_id ride) (nd_driverId d)]"
    and "offer_key (snd (matchDriver gd cfg now offerId ride region w)) =
       (offer_key w)(rr_id ride \<mapsto> \<lparr> oe_offerId = offerId, oe_driverId = nd_driverId d,
                                      oe_expiresAt = now + DRIVER_RESPONSE_TIMEOUT cfg \<rparr>)"
  using assms by (simp_all add: matchDriver_def Let_def offer_row_def)

lemma matchDriver_frame [simp]:
  "geo_key (snd (matchDriver gd cfg now offerId ride region w)) = geo_key w"
  "presence_key (snd (matchDriver gd cfg now offerId ride region w)) = presence_key w"
  "meta_key (snd (matchDriver gd cfg now offerId ride region w)) = meta_key w"
  "lock_key (snd (matchDriver gd cfg now offerId ride region w)) = lock_key w"
  by (simp_all add: matchDriver_def Let_def split: list.split)

subsection \<open>The ride table under updates\<close>

lemma attempts_not_decreased_refl: "attempts_not_decreased xs xs"
  by (simp add: attempts_not_decreased_def list_all2_same)

lemma attempts_not_decreased_trans:
  assumes "attempts_not_decreased xs ys" "attempts_not_decreased ys zs"
  shows "attempts_not_decreased xs zs"
proof -
  from assms have l: "length xs \<le> length ys" "length ys \<le> length zs"
    by (simp_all add: attempts_not_decreased_def)
  from assms(2) have "list_all2 (\<lambda>r r'. rr_id r' = rr_id r \<and> rr_match_attempts r \<le> rr_match_attempts r')
      (take (length xs) ys) (take (length xs) (take (length ys) zs))"
    unfolding attempts_not_decreased_def by (blast intro: list_all2_takeI)
  then have yz: "list_all2 (\<lambda>r r'. rr_id r' = rr_id r \<and> rr_match_attempts r \<le> rr_match_attempts r')
      (take (length xs) ys) (take (length xs) zs)"
    using l by (simp add: min_def)
  from assms(1) have xy: "list_all2 (\<lambda>r r'. rr_id r' = rr_id r \<and> rr_match_attempts r \<le> rr_match_attempts r')
      xs (take (length xs) ys)"
    by (simp add: attempts_not_decreased_def)
  have "list_all2 (\<lambda>r r'. rr_id r' = rr_id r \<and> rr_match_attempts r \<le> rr_match_attempts r')
      xs (take (length xs) zs)"
    by (rule list_all2_trans [OF _ xy yz]) auto
  then show ?thesis using l by (simp add: attempts_not_decreased_def)
qed

lemma attempts_not_decreased_append: "attempts_not_decreased xs (xs @ ys)"
  by (simp add: attempts_not_decreased_def list_all2_same)

lemma attempts_not_decreased_map:
  assumes "\<And>r. r \<in> set xs \<Longrightarrow> rr_id (g r) = rr_id r \<and> rr_match_attempts r \<le> rr_match_attempts (g r)"
  shows "attempts_not_decreased xs (map g xs)"
  using assms by (simp add: attempts_not_decreased_def list_all2_map2 list_all2_same)

lemma matchDriver_not_decreased:
  "attempts_not_decreased (ride_requests w) (ride_requests (snd (matchDriver gd cfg now offerId ride region w)))"
  unfolding matchDriver_def Let_def
  by (auto split: list.split intro!: attempts_not_decreased_map attempts_not_decreased_refl)

lemma select_ride_unique:
  assumes "distinct (map rr_id (ride_requests w))" "select_ride i w = Some ride"
    "r \<in> set (ride_requests w)" "rr_id r = i"
  shows "r = ride"
proof -
  from assms(2) have "ride \<in> set (ride_requests w)" "rr_id ride = i"
    by (auto simp: select_ride_def find_Some_iff)
  with assms(1,3,4) show ?thesis
    by (metis distinct_map inj_onD)
qed

lemma select_ride_id: "select_ride i w = Some ride \<Longrightarrow> rr_id ride = i \<and> ride \<in> set (ride_requests w)"
  by (auto simp: select_ride_def find_Some_iff)

lemma bounded_map:
  assumes "attempts_bounded cfg w"
    and "\<And>r. r \<in> set (ride_requests w) \<Longrightarrow> rr_id (g r) = rr_id r \<and> rr_match_attempts (g r) \<le> MAX_MATCH_ATTEMPTS cfg"
    and "ride_requests w' = map g (ride_requests w)"
  shows "attempts_bounded cfg w'"
proof -
  have e: "map rr_id (ride_requests w') = map rr_id (ride_requests w)"
    using assms(2,3) by (simp cong: map_cong)
  have "distinct (map rr_id (ride_requests w'))"
    unfolding e using assms(1) by (simp add: attempts_bounded_def)
  moreover have "list_all (\<lambda>r. rr_match_attempts r \<le> MAX_MATCH_ATTEMPTS cfg) (ride_requests w')"
    using assms(2,3) by (simp add: list_all_iff)
  ultimately show ?thesis by (simp add: attempts_bounded_def)
qed

lemma bounded_D:
  "attempts_bounded cfg w \<Longrightarrow> r \<in> set (ride_requests w) \<Longrightarrow> rr_match_attempts r \<le> MAX_MATCH_ATTEMPTS cfg"
  by (simp add: attempts_bounded_def list_all_iff)

lemma bounded_same_rides:
  "attempts_bounded cfg w \<Longrightarrow> ride_requests w' = ride_requests w \<Longrightarrow> attempts_bounded cfg w'"
  by (simp add: attempts_bounded_def)

lemma update_ride_bounded:
  assumes "attempts_bounded cfg w"
    and "\<And>r. rr_id (f r) = rr_id r \<and> rr_match_attempts (f r) = rr_match_attempts r"
  shows "attempts_bounded cfg (update_ride i f w)"
  by (rule bounded_map [OF assms(1), where g = "\<lambda>r. if rr_id r = i then f r else r"])
     (auto simp: assms(2) bounded_D [OF assms(1)])

lemma matchDriver_bounded:
  assumes "attempts_bounded cfg w"
    and "\<And>r. r \<in> set (ride_requests w) \<Longrightarrow> rr_id r = rr_id ride \<Longrightarrow> rr_match_attempts r < MAX_MATCH_ATTEMPTS cfg"
  shows "attempts_bounded cfg (snd (matchDriver gd cfg now offerId ride region w))"
proof (cases "findNearbyDrivers gd w (rr_pickup_lat ride) (rr_pickup_lng ride)
             (DEFAULT_SEARCH_RADIUS_KM cfg) region (Some (rr_tier ride)) 10")
  case Nil
  show ?thesis
    unfolding matchDriver_none [OF Nil] snd_conv
    by (rule update_ride_bounded [OF assms(1)]) simp
next
  case (Cons d ds)
  show ?thesis
  proof (cases "offerId \<in> do_id ` set (driver_offers w)")
    case True
    then show ?thesis using assms(1) by (simp add: matchDriver_duplicate [OF Cons])
  next
    case False
    show ?thesis
      by (rule bounded_map [OF assms(1) _ matchDriver_offer(2) [OF Cons False]])
         (auto dest: assms(2) bounded_D [OF assms(1)])
  qed
qed


lemma handleDriverResponse_bounded:
  assumes "attempts_bounded cfg w"
  shows "attempts_bounded cfg (snd (handleDriverResponse gd cfg now offerId rideId resp w))"
proof (cases "select_ride rideId w")
  case None
  then show ?thesis using assms by (simp add: handleDriverResponse_def)
next
  case (Some ride)
  note id = select_ride_id [OF Some]
  show ?thesis
  proof (cases "dr_action resp")
    case ACCEPT
    have "attempts_bounded cfg
        (update_ride rideId (\<lambda>r. r\<lparr>rr_status := ''ACCEPTED'', rr_driver_id := Some (dr_driverId resp)\<rparr>) w)"
      by (rule update_ride_bounded [OF assms]) simp
    then show ?thesis
      using Some ACCEPT
      by (simp add: handleDriverResponse_def Let_def attempts_bounded_def)
  next
    case DECLINE
    let ?w2 = "publishEvent ''ride.declined'' rideId
        (update_offers rideId (dr_driverId resp)
           (\<lambda>offer. offer\<lparr>do_status := ''DECLINED'', do_responded_at := Some now,
              do_decline_reason := Some (str_or (dr_reason resp) ''Not specified'')\<rparr>) w)"
    have b2: "attempts_bounded cfg ?w2"
      by (rule bounded_same_rides [OF assms]) simp
    have ex: "attempts_bounded cfg (update_ride rideId (\<lambda>r. r\<lparr>rr_status := ''EXPIRED''\<rparr>) ?w2)"
      by (rule update_ride_bounded [OF b2]) simp
    have md: "attempts_bounded cfg (snd (matchDriver gd cfg now offerId ride region ?w2))"
      if "rr_match_attempts ride < MAX_MATCH_ATTEMPTS cfg" for region
    proof (rule matchDriver_bounded [OF b2])
      fix r assume "r \<in> set (ride_requests ?w2)" "rr_id r = rr_id ride"
      then have "r = ride"
        using select_ride_unique [of w rideId ride r] Some id assms
        by (simp add: attempts_bounded_def)
      then show "rr_match_attempts r < MAX_MATCH_ATTEMPTS cfg" using that by simp
    qed
    show ?thesis
      using Some DECLINE ex md
      by (simp add: handleDriverResponse_def Let_def)
  qed
qed


lemma handleDriverResponse_not_decreased:
  "attempts_not_decreased (ride_requests w)
     (ride_requests (snd (handleDriverResponse gd cfg now offerId rideId resp w)))"
proof (cases "select_ride rideId w")
  case None
  then show ?thesis by (simp add: handleDriverResponse_def attempts_not_decreased_refl)
next
  case (Some ride)
  show ?thesis
  proof (cases "dr_action resp")
    case ACCEPT
    then show ?thesis
      using Some
      by (auto simp: handleDriverResponse_def Let_def intro!: attempts_not_decreased_map)
  next
    case DECLINE
    let ?w2 = "publishEvent ''ride.declined'' rideId
        (update_offers rideId (dr_driverId resp)
           (\<lambda>offer. offer\<lparr>do_status := ''DECLINED'', do_responded_at := Some now,
              do_decline_reason := Some (str_or (dr_reason resp) ''Not specified'')\<rparr>) w)"
    have r2: "ride_requests ?w2 = ride_requests w" by simp
    have ex: "attempts_not_decreased (ride_requests w)
        (ride_requests (update_ride rideId (\<lambda>r. r\<lparr>rr_status := ''EXPIRED''\<rparr>) ?w2))"
      by (auto intro!: attempts_not_decreased_map)
    have md: "attempts_not_decreased (ride_requests w)
        (ride_requests (snd (matchDriver gd cfg now offerId ride region ?w2)))" for region
      using matchDriver_not_decreased [of ?w2 gd cfg now offerId ride region] unfolding r2 .
    show ?thesis
      using Some DECLINE ex md
      by (simp add: handleDriverResponse_def Let_def)
  qed
qed

lemma checkTimeout_bounded:
  "attempts_bounded cfg w \<Longrightarrow> attempts_bounded cfg (snd (checkTimeout gd cfg now offerId rideId w))"
  by (simp add: checkTimeout_def handleDriverResponse_bounded split: option.split)

lemma checkTimeout_not_decreased:
  "attempts_not_decreased (ride_requests w) (ride_requests (snd (checkTimeout gd cfg now offerId rideId w)))"
  by (simp add: checkTimeout_def handleDriverResponse_not_decreased attempts_not_decreased_refl
      split: option.split)

lemma cancelRide_bounded:
  "attempts_bounded cfg w \<Longrightarrow> attempts_bounded cfg (snd (cancelRide rideId reason w))"
  unfolding cancelRide_def snd_conv by (rule update_ride_bounded) simp_all

lemma cancelRide_not_decreased:
  "attempts_not_decreased (ride_requests w) (ride_requests (snd (cancelRide rideId reason w)))"
  by (auto simp: cancelRide_def intro!: attempts_not_decreased_map)

lemma createRideRequest_bounded:
  assumes "attempts_bounded cfg w" and "1 \<le> MAX_MATCH_ATTEMPTS cfg"
  shows "attempts_bounded cfg (snd (createRideRequest gd hav cfg now rideId offerId inp w))"
proof -
  define w2 where "w2 = snd (getSurgeForLocation gd now (in_pickup_lat inp) (in_pickup_lng inp)
      (snd (incrementDemand (latLngToGeoCell (in_pickup_lat inp) (in_pickup_lng inp))
             (getRegionFromCoordinates (in_pickup_lat inp) (in_pickup_lng inp)) w)))"
  have r2: "ride_requests w2 = ride_requests w" by (simp add: w2_def)
  show ?thesis
  proof (cases "rideId \<in> rr_id ` set (ride_requests w)
            \<or> in_idempotencyKey inp \<in> rr_idempotency_key ` set (ride_requests w)")
    case True
    then have "snd (createRideRequest gd hav cfg now rideId offerId inp w) = w2"
      by (simp add: createRideRequest_def Let_def w2_def)
    then show ?thesis using assms(1) r2 by (simp add: attempts_bounded_def)
  next
    case False
    then obtain row w4 region where
      e: "snd (createRideRequest gd hav cfg now rideId offerId inp w) =
            snd (matchDriver gd cfg now offerId row region w4)"
      and row: "rr_id row = rideId" "rr_match_attempts row = 0"
      and w4: "ride_requests w4 = ride_requests w @ [row]"
      by (simp add: createRideRequest_def Let_def w2_def [symmetric] r2)
    have b4: "attempts_bounded cfg w4"
      using assms False row w4 by (auto simp: attempts_bounded_def)
    have "attempts_bounded cfg (snd (matchDriver gd cfg now offerId row region w4))"
    proof (rule matchDriver_bounded [OF b4])
      fix r assume "r \<in> set (ride_requests w4)" "rr_id r = rr_id row"
      then have "r = row" using False row w4 by auto
      then show "rr_match_attempts r < MAX_MATCH_ATTEMPTS cfg" using row assms(2) by simp
    qed
    then show ?thesis unfolding e .
  qed
qed

lemma createRideRequest_not_decreased:
  "attempts_not_decreased (ride_requests w)
     (ride_requests (snd (createRideRequest gd hav cfg now rideId offerId inp w)))"
proof -
  define w2 where "w2 = snd (getSurgeForLocation gd now (in_pickup_lat inp) (in_pickup_lng inp)
      (snd (incrementDemand (latLngToGeoCell (in_pickup_lat inp) (in_pickup_lng inp))
             (getRegionFromCoordinates (in_pickup_lat inp) (in_pickup_lng inp)) w)))"
  have r2: "ride_requests w2 = ride_requests w" by (simp add: w2_def)
  show ?thesis
  proof (cases "rideId \<in> rr_id ` set (ride_requests w)
            \<or> in_idempotencyKey inp \<in> rr_idempotency_key ` set (ride_requests w)")
    case True
    then have "snd (createRideRequest gd hav cfg now rideId offerId inp w) = w2"
      by (simp add: createRideRequest_def Let_def w2_def)
    then show ?thesis using r2 by (simp add: attempts_not_decreased_refl)
  next
    case False
    then obtain row w4 region where
      e: "snd (createRideRequest gd hav cfg now rideId offerId inp w) =
            snd (matchDriver gd cfg now offerId row region w4)"
      and w4: "ride_requests w4 = ride_requests w @ [row]"
      by (simp add: createRideRequest_def Let_def w2_def [symmetric] r2)
    have "attempts_not_decreased (ride_requests w) (ride_requests w4)"
      unfolding w4 by (rule attempts_not_decreased_append)
    from attempts_not_decreased_trans [OF this matchDriver_not_decreased]
    show ?thesis unfolding e .
  qed
qed

lemma step_bounded:
  "1 \<le> MAX_MATCH_ATTEMPTS cfg \<Longrightarrow> attempts_bounded cfg w \<Longrightarrow> attempts_bounded cfg (step gd hav cfg x w)"
  by (cases x)
     (simp_all add: createRideRequest_bounded handleDriverResponse_bounded checkTimeout_bounded
        cancelRide_bounded attempts_bounded_def [of cfg "w\<lparr>geo_key := _, presence_key := _, meta_key := _\<rparr>"]
        attempts_bounded_def [of cfg "w\<lparr>offer_key := _\<rparr>"] attempts_bounded_def [of cfg w])

lemma step_not_decreased:
  "attempts_not_decreased (ride_requests w) (ride_requests (step gd hav cfg x w))"
  by (cases x)
     (simp_all add: createRideRequest_not_decreased handleDriverResponse_not_decreased
        checkTimeout_not_decreased cancelRide_not_decreased attempts_not_decreased_refl)

lemma run_bounded:
  "1 \<le> MAX_MATCH_ATTEMPTS cfg \<Longrightarrow> attempts_bounded cfg w \<Longrightarrow> attempts_bounded cfg (run gd hav cfg xs w)"
  by (induction xs arbitrary: w) (simp_all add: step_bounded)

lemma run_not_decreased:
  "attempts_not_decreased (ride_requests w) (ride_requests (run gd hav cfg xs w))"
proof (induction xs arbitrary: w)
  case Nil
  show ?case by (simp add: attempts_not_decreased_refl)
next
  case (Cons x xs)
  show ?case
    using attempts_not_decreased_trans [OF step_not_decreased Cons.IH] by simp
qed


lemma sum_attempts_bump:
  assumes "distinct (map rr_id xs)" "i \<in> rr_id ` set xs"
    and "\<And>r. rr_match_attempts (f r) = rr_match_attempts r + 1"
  shows "sum_list (map rr_match_attempts (map (\<lambda>r. if rr_id r = i then f r else r) xs))
     = sum_list (map rr_match_attempts xs) + 1"
  using assms(1,2)
proof (induction xs)
  case Nil
  then show ?case by simp
next
  case (Cons x xs)
  show ?case
  proof (cases "rr_id x = i")
    case True
    then have "i \<notin> rr_id ` set xs" using Cons.prems(1) by auto
    then have "map (\<lambda>r. if rr_id r = i then f r else r) xs = xs"
      by (intro map_idI) auto
    then show ?thesis using True by (simp add: assms(3))
  next
    case False
    then have "i \<in> rr_id ` set xs" using Cons.prems(2) by auto
    with Cons.IH Cons.prems(1) False show ?thesis by simp
  qed
qed

lemma map_attempts_same:
  assumes "\<And>r. rr_match_attempts (f r) = rr_match_attempts r"
  shows "map (rr_match_attempts \<circ> (\<lambda>r. if rr_id r = i then f r else r)) xs = map rr_match_attempts xs"
  by (induction xs) (simp_all add: assms)

lemma sum_attempts_same:
  assumes "\<And>r. rr_match_attempts (f r) = rr_match_attempts r"
  shows "sum_list (map (rr_match_attempts \<circ> (\<lambda>r. if rr_id r = i then f r else r)) xs)
     = sum_list (map rr_match_attempts xs)"
  by (simp only: map_attempts_same [of f, OF assms])

lemma matchDriver_accounting:
  assumes "distinct (map rr_id (ride_requests w))" "rr_id ride \<in> rr_id ` set (ride_requests w)"
  shows "total_attempts (snd (matchDriver gd cfg now offerId ride region w)) - total_attempts w
     = int (length (driver_offers (snd (matchDriver gd cfg now offerId ride region w))))
       - int (length (driver_offers w))"
proof (cases "findNearbyDrivers gd w (rr_pickup_lat ride) (rr_pickup_lng ride)
             (DEFAULT_SEARCH_RADIUS_KM cfg) region (Some (rr_tier ride)) 10")
  case Nil
  show ?thesis
    unfolding matchDriver_none [OF Nil] total_attempts_def
    by (simp add: sum_attempts_same)
next
  case (Cons d ds)
  show ?thesis
  proof (cases "offerId \<in> do_id ` set (driver_offers w)")
    case True
    then show ?thesis by (simp add: matchDriver_duplicate [OF Cons])
  next
    case False
    show ?thesis
      unfolding total_attempts_def matchDriver_offer(2,3) [OF Cons False]
      using sum_attempts_bump [OF assms, where f = "\<lambda>r. r\<lparr>rr_current_driver_offer_id := Some offerId,
                        rr_driver_id := Some (nd_driverId d),
                        rr_match_attempts := rr_match_attempts r + 1\<rparr>"]
      by simp
  qed
qed

lemma handleDriverResponse_accounting:
  assumes "distinct (map rr_id (ride_requests w))"
  shows "total_attempts (snd (handleDriverResponse gd cfg now offerId rideId resp w)) - total_attempts w
     = int (length (driver_offers (snd (handleDriverResponse gd cfg now offerId rideId resp w))))
       - int (length (driver_offers w))"
proof (cases "select_ride rideId w")
  case None
  then show ?thesis by (simp add: handleDriverResponse_def)
next
  case (Some ride)
  note id = select_ride_id [OF Some]
  show ?thesis
  proof (cases "dr_action resp")
    case ACCEPT
    then show ?thesis
      using Some by (simp add: handleDriverResponse_def Let_def total_attempts_def sum_attempts_same)
  next
    case DECLINE
    let ?w2 = "publishEvent ''ride.declined'' rideId
        (update_offers rideId (dr_driverId resp)
           (\<lambda>offer. offer\<lparr>do_status := ''DECLINED'', do_responded_at := Some now,
              do_decline_reason := Some (str_or (dr_reason resp) ''Not specified'')\<rparr>) w)"
    have r2: "ride_requests ?w2 = ride_requests w" "length (driver_offers ?w2) = length (driver_offers w)"
      "total_attempts ?w2 = total_attempts w"
      by (simp_all add: total_attempts_def)
    have md: "total_attempts (snd (matchDriver gd cfg now offerId ride region ?w2)) - total_attempts w
        = int (length (driver_offers (snd (matchDriver gd cfg now offerId ride region ?w2))))
          - int (length (driver_offers w))" for region
      using matchDriver_accounting [of ?w2 ride gd cfg now offerId region] assms id
      unfolding r2 by auto
    have ex: "total_attempts (update_ride rideId (\<lambda>r. r\<lparr>rr_status := ''EXPIRED''\<rparr>) ?w2) = total_attempts w"
      by (simp add: total_attempts_def sum_attempts_same)
    show ?thesis
      using Some DECLINE ex md
      by (simp add: handleDriverResponse_def Let_def)
  qed
qed

lemma createRideRequest_accounting:
  assumes "distinct (map rr_id (ride_requests w))"
  shows "total_attempts (snd (createRideRequest gd hav cfg now rideId offerId inp w)) - total_attempts w
     = int (length (driver_offers (snd (createRideRequest gd hav cfg now rideId offerId inp w))))
       - int (length (driver_offers w))"
proof -
  define w2 where "w2 = snd (getSurgeForLocation gd now (in_pickup_lat inp) (in_pickup_lng inp)
      (snd (incrementDemand (latLngToGeoCell (in_pickup_lat inp) (in_pickup_lng inp))
             (getRegionFromCoordinates (in_pickup_lat inp) (in_pickup_lng inp)) w)))"
  have r2: "ride_requests w2 = ride_requests w" "driver_offers w2 = driver_offers w"
    by (simp_all add: w2_def)
  show ?thesis
  proof (cases "rideId \<in> rr_id ` set (ride_requests w)
            \<or> in_idempotencyKey inp \<in> rr_idempotency_key ` set (ride_requests w)")
    case True
    then have "snd (createRideRequest gd hav cfg now rideId offerId inp w) = w2"
      by (simp add: createRideRequest_def Let_def w2_def)
    then show ?thesis using r2 by (simp add: total_attempts_def)
  next
    case False
    then obtain row w4 region where
      e: "snd (createRideRequest gd hav cfg now rideId offerId inp w) =
            snd (matchDriver gd cfg now offerId row region w4)"
      and row: "rr_id row = rideId" "rr_match_attempts row = 0"
      and w4: "ride_requests w4 = ride_requests w @ [row]" "driver_offers w4 = driver_offers w"
      by (simp add: createRideRequest_def Let_def w2_def [symmetric] r2)
    have d4: "distinct (map rr_id (ride_requests w4))" "rr_id row \<in> rr_id ` set (ride_requests w4)"
      using assms False row w4 by auto
    have t4: "total_attempts w4 = total_attempts w"
      using row w4 by (simp add: total_attempts_def)
    show ?thesis
      unfolding e using matchDriver_accounting [OF d4, of gd cfg now offerId region] t4 w4(2) by simp
  qed
qed

lemma step_accounting:
  assumes "distinct (map rr_id (ride_requests w))"
  shows "total_attempts (step gd hav cfg x w) - total_attempts w
     = int (length (driver_offers (step gd hav cfg x w))) - int (length (driver_offers w))"
proof (cases x)
  case (OpCreate now rideId offerId inp)
  then show ?thesis using createRideRequest_accounting [OF assms] by simp
next
  case (OpRespond now offerId rideId resp)
  then show ?thesis using handleDriverResponse_accounting [OF assms] by simp
next
  case (OpCheckTimeout now offerId rideId)
  then show ?thesis
    using handleDriverResponse_accounting [OF assms]
    by (simp add: checkTimeout_def split: option.split)
next
  case (OpCancel rideId reason)
  then show ?thesis by (simp add: cancelRide_def total_attempts_def sum_attempts_same)
next
  case (OpProximity g p m)
  then show ?thesis by (simp add: total_attempts_def)
next
  case (OpOfferKeyExpired rideId)
  then show ?thesis by (simp add: total_attempts_def)
qed

lemma run_accounting:
  assumes "1 \<le> MAX_MATCH_ATTEMPTS cfg" "attempts_bounded cfg w"
  shows "total_attempts (run gd hav cfg xs w) - total_attempts w
     = int (length (driver_offers (run gd hav cfg xs w))) - int (length (driver_offers w))"
  using assms(2)
proof (induction xs arbitrary: w)
  case Nil
  show ?case by simp
next
  case (Cons x xs)
  have d: "distinct (map rr_id (ride_requests w))"
    using Cons.prems by (simp add: attempts_bounded_def)
  have b: "attempts_bounded cfg (step gd hav cfg x w)"
    by (rule step_bounded [OF assms(1) Cons.prems])
  show ?case
    using Cons.IH [OF b] step_accounting [OF d, of gd hav cfg x] by simp
qed

lemma select_ride_update:
  assumes "\<And>r. rr_id (f r) = rr_id r"
  shows "select_ride i (update_ride i f w) = map_option f (select_ride i w)"
proof -
  have "find (\<lambda>r. rr_id r = i) (map (\<lambda>r. if rr_id r = i then f r else r) xs)
      = map_option f (find (\<lambda>r. rr_id r = i) xs)" for xs
    by (induction xs) (simp_all add: assms)
  then show ?thesis by (simp add: select_ride_def)
qed

lemma decline_at_max:
  assumes "select_ride rideId w = Some ride" "MAX_MATCH_ATTEMPTS cfg \<le> rr_match_attempts ride"
    "dr_action resp = DECLINE"
  shows "fst (handleDriverResponse gd cfg now offerId rideId resp w) =
       Inr \<lparr> res_status = ''EXPIRED'', res_driverId = None,
             res_reason = Some ''Max match attempts reached'' \<rparr>"
    and "select_ride rideId (snd (handleDriverResponse gd cfg now offerId rideId resp w)) =
       Some (ride\<lparr>rr_status := ''EXPIRED''\<rparr>)"
    and "length (driver_offers (snd (handleDriverResponse gd cfg now offerId rideId resp w))) =
       length (driver_offers w)"
    and "map rr_match_attempts (ride_requests (snd (handleDriverResponse gd cfg now offerId rideId resp w))) =
       map rr_match_attempts (ride_requests w)"
proof -
  let ?w2 = "publishEvent ''ride.declined'' rideId
        (update_offers rideId (dr_driverId resp)
           (\<lambda>offer. offer\<lparr>do_status := ''DECLINED'', do_responded_at := Some now,
              do_decline_reason := Some (str_or (dr_reason resp) ''Not specified'')\<rparr>) w)"
  have e: "handleDriverResponse gd cfg now offerId rideId resp w =
      (Inr \<lparr> res_status = ''EXPIRED'', res_driverId = None,
             res_reason = Some ''Max match attempts reached'' \<rparr>,
       update_ride rideId (\<lambda>r. r\<lparr>rr_status := ''EXPIRED''\<rparr>) ?w2)"
    using assms by (simp add: handleDriverResponse_def Let_def)
  have s2: "select_ride rideId ?w2 = Some ride"
    using assms(1) by (simp add: select_ride_def)
  show "fst (handleDriverResponse gd cfg now offerId rideId resp w) =
       Inr \<lparr> res_status = ''EXPIRED'', res_driverId = None,
             res_reason = Some ''Max match attempts reached'' \<rparr>"
    by (simp add: e)
  show "select_ride rideId (snd (handleDriverResponse gd cfg now offerId rideId resp w)) =
       Some (ride\<lparr>rr_status := ''EXPIRED''\<rparr>)"
    unfolding e snd_conv by (simp add: select_ride_update s2)
  show "length (driver_offers (snd (handleDriverResponse gd cfg now offerId rideId resp w))) =
       length (driver_offers w)"
    by (simp add: e)
  show "map rr_match_attempts (ride_requests (snd (handleDriverResponse gd cfg now offerId rideId resp w))) =
       map rr_match_attempts (ride_requests w)"
    by (simp add: e cong: map_cong)
qed




section \<open>Creating a ride: what the reply reports\<close>

lemma findNearbyDrivers_through [simp]:
  "findNearbyDrivers gd (publishEvent t k w) = findNearbyDrivers gd w"
  "findNearbyDrivers gd (update_ride i f w) = findNearbyDrivers gd w"
  "findNearbyDrivers gd (update_offers i d g w) = findNearbyDrivers gd w"
  "findNearbyDrivers gd (snd (incrementDemand c r w)) = findNearbyDrivers gd w"
  "findNearbyDrivers gd (snd (calculateSurge gd' now c r la lo w)) = findNearbyDrivers gd w"
  "findNearbyDrivers gd (snd (getSurgeForLocation gd' now la lo w)) = findNearbyDrivers gd w"
  "findNearbyDrivers gd (w\<lparr>ride_requests := rs\<rparr>) = findNearbyDrivers gd w"
  "findNearbyDrivers gd (w\<lparr>driver_offers := os\<rparr>) = findNearbyDrivers gd w"
  "findNearbyDrivers gd (w\<lparr>offer_key := ok\<rparr>) = findNearbyDrivers gd w"
  "findNearbyDrivers gd (w\<lparr>demand_key := dk\<rparr>) = findNearbyDrivers gd w"
  "findNearbyDrivers gd (w\<lparr>surge_key := sk\<rparr>) = findNearbyDrivers gd w"
  "findNearbyDrivers gd (w\<lparr>surge_cells_key := ck\<rparr>) = findNearbyDrivers gd w"
  "findNearbyDrivers gd (w\<lparr>lock_key := lk\<rparr>) = findNearbyDrivers gd w"
  "findNearbyDrivers gd (w\<lparr>published := ps\<rparr>) = findNearbyDrivers gd w"
  by (rule findNearbyDrivers_frame; simp)+

lemma select_ride_append_fresh:
  assumes "i \<notin> rr_id ` set (ride_requests w)" "rr_id row = i"
    and "ride_requests w' = ride_requests w @ [row]"
  shows "select_ride i w' = Some row"
proof -
  have "find (\<lambda>r. rr_id r = i) (xs @ [row]) = Some row" if "i \<notin> rr_id ` set xs" for xs
    using that by (induction xs) (auto simp: assms(2))
  then show ?thesis using assms(1,3) by (simp add: select_ride_def)
qed

lemma createRideRequest_duplicate:
  assumes "rideId \<in> rr_id ` set (ride_requests w)
            \<or> in_idempotencyKey inp \<in> rr_idempotency_key ` set (ride_requests w)"
  shows "fst (createRideRequest gd hav cfg now rideId offerId inp w) = Inl UniqueViolation"
  using assms by (simp add: createRideRequest_def Let_def)

lemma createRideRequest_fresh:
  assumes "rideId \<notin> rr_id ` set (ride_requests w)"
    and "in_idempotencyKey inp \<notin> rr_idempotency_key ` set (ride_requests w)"
  shows "\<exists>row w4 sm ef.
      createRideRequest gd hav cfg now rideId offerId inp w =
        returning (matchDriver gd cfg now offerId row
                     (getRegionFromCoordinates (in_pickup_lat inp) (in_pickup_lng inp)) w4)
          (\<lambda>matchResult.
             \<lparr> rc_id = rideId, rc_status = ''MATCHING'', rc_riderId = in_riderId inp,
               rc_pickup = (in_pickup_lat inp, in_pickup_lng inp),
               rc_destination = (in_destination_lat inp, in_destination_lng inp),
               rc_tier = in_tier inp, rc_surgeMultiplier = sm, rc_estimatedFare = ef,
               rc_matchedDriver = mr_driver matchResult, rc_matchAttempts = 1 \<rparr>)
      \<and> rr_id row = rideId \<and> rr_match_attempts row = 0 \<and> rr_status row = ''MATCHING''
      \<and> rr_pickup_lat row = in_pickup_lat inp \<and> rr_pickup_lng row = in_pickup_lng inp
      \<and> rr_tier row = in_tier inp
      \<and> ride_requests w4 = ride_requests w @ [row]
      \<and> driver_offers w4 = driver_offers w
      \<and> findNearbyDrivers gd w4 = findNearbyDrivers gd w"
  using assms
  apply (simp add: createRideRequest_def Let_def)
  apply (intro exI conjI)
           apply (rule refl)
          apply simp_all
  done

lemma matchDriver_returns:
  assumes "offerId \<notin> do_id ` set (driver_offers w)"
  shows "\<exists>m. fst (matchDriver gd cfg now offerId ride region w) = Inr m"
  using assms by (simp add: matchDriver_def Let_def split: list.split)

text \<open>
  Claim C10. \<^verbatim>\<open>createRideRequest\<close> returns whenever the new ids and the idempotency
  key are fresh, and the object it returns always reports status \<open>MATCHING\<close> and
  \<open>matchAttempts\<close> 1; when matching finds no eligible driver, the reply's
  \<open>matchedDriver\<close> is null while the stored row is \<open>NO_DRIVERS\<close> with
  \<open>match_attempts\<close> 0.
\<close>

theorem C10_createRideRequest_reports_matching:
  "(rideId \<notin> rr_id ` set (ride_requests w)
      \<and> in_idempotencyKey inp \<notin> rr_idempotency_key ` set (ride_requests w)
      \<and> offerId \<notin> do_id ` set (driver_offers w)
      \<longrightarrow> (\<exists>obj. fst (createRideRequest gd hav cfg now rideId offerId inp w) = Inr obj))
   \<and> (fst (createRideRequest gd hav cfg now rideId offerId inp w) = Inr obj \<longrightarrow>
        rc_status obj = ''MATCHING'' \<and> rc_matchAttempts obj = 1
        \<and> (findNearbyDrivers gd w (in_pickup_lat inp) (in_pickup_lng inp)
              (DEFAULT_SEARCH_RADIUS_KM cfg)
              (getRegionFromCoordinates (in_pickup_lat inp) (in_pickup_lng inp))
              (Some (in_tier inp)) 10 = [] \<longrightarrow>
            rc_matchedDriver obj = None
            \<and> map_option rr_status
                 (select_ride rideId (snd (createRideRequest gd hav cfg now rideId offerId inp w)))
               = Some ''NO_DRIVERS''
            \<and> map_option rr_match_attempts
                 (select_ride rideId (snd (createRideRequest gd hav cfg now rideId offerId inp w)))
               = Some 0))"
proof (intro conjI impI)
  assume f: "rideId \<notin> rr_id ` set (ride_requests w)
      \<and> in_idempotencyKey inp \<notin> rr_idempotency_key ` set (ride_requests w)
      \<and> offerId \<notin> do_id ` set (driver_offers w)"
  from createRideRequest_fresh [of rideId w inp gd hav cfg now offerId] f
  obtain row w4 sm ef where
    e: "createRideRequest gd hav cfg now rideId offerId inp w =
        returning (matchDriver gd cfg now offerId row
                     (getRegionFromCoordinates (in_pickup_lat inp) (in_pickup_lng inp)) w4)
          (\<lambda>matchResult.
             \<lparr> rc_id = rideId, rc_status = ''MATCHING'', rc_riderId = in_riderId inp,
               rc_pickup = (in_pickup_lat inp, in_pickup_lng inp),
               rc_destination = (in_destination_lat inp, in_destination_lng inp),
               rc_tier = in_tier inp, rc_surgeMultiplier = sm, rc_estimatedFare = ef,
               rc_matchedDriver = mr_driver matchResult, rc_matchAttempts = 1 \<rparr>)"
    and o4: "driver_offers w4 = driver_offers w"
    by blast
  from f o4 have "offerId \<notin> do_id ` set (driver_offers w4)" by simp
  from matchDriver_returns [OF this]
  obtain m where "fst (matchDriver gd cfg now offerId row
       (getRegionFromCoordinates (in_pickup_lat inp) (in_pickup_lng inp)) w4) = Inr m"
    by blast
  then show "\<exists>obj. fst (createRideRequest gd hav cfg now rideId offerId inp w) = Inr obj"
    unfolding e by simp
next
  assume r: "fst (createRideRequest gd hav cfg now rideId offerId inp w) = Inr obj"
  have fresh: "rideId \<notin> rr_id ` set (ride_requests w)"
    "in_idempotencyKey inp \<notin> rr_idempotency_key ` set (ride_requests w)"
    using r createRideRequest_duplicate [of rideId w inp gd hav cfg now offerId] by auto
  from createRideRequest_fresh [OF fresh, of gd hav cfg now offerId]
  obtain row w4 sm ef where
    e: "createRideRequest gd hav cfg now rideId offerId inp w =
        returning (matchDriver gd cfg now offerId row
                     (getRegionFromCoordinates (in_pickup_lat inp) (in_pickup_lng inp)) w4)
          (\<lambda>matchResult.
             \<lparr> rc_id = rideId, rc_status = ''MATCHING'', rc_riderId = in_riderId inp,
               rc_pickup = (in_pickup_lat inp, in_pickup_lng inp),
               rc_destination = (in_destination_lat inp, in_destination_lng inp),
               rc_tier = in_tier inp, rc_surgeMultiplier = sm, rc_estimatedFare = ef,
               rc_matchedDriver = mr_driver matchResult, rc_matchAttempts = 1 \<rparr>)"
    and row: "rr_id row = rideId" "rr_match_attempts row = 0"
      "rr_pickup_lat row = in_pickup_lat inp" "rr_pickup_lng row = in_pickup_lng inp"
      "rr_tier row = in_tier inp"
    and w4: "ride_requests w4 = ride_requests w @ [row]"
      "findNearbyDrivers gd w4 = findNearbyDrivers gd w"
    by blast
  from r show "rc_status obj = ''MATCHING''"
    unfolding e by (auto split: sum.splits)
  from r show "rc_matchAttempts obj = 1"
    unfolding e by (auto split: sum.splits)
  assume n: "findNearbyDrivers gd w (in_pickup_lat inp) (in_pickup_lng inp)
              (DEFAULT_SEARCH_RADIUS_KM cfg)
              (getRegionFromCoordinates (in_pickup_lat inp) (in_pickup_lng inp))
              (Some (in_tier inp)) 10 = []"
  have md: "matchDriver gd cfg now offerId row
       (getRegionFromCoordinates (in_pickup_lat inp) (in_pickup_lng inp)) w4 =
     (Inr \<lparr> mr_driver = None, mr_matched = False \<rparr>,
      update_ride rideId (\<lambda>r. r\<lparr>rr_status := ''NO_DRIVERS''\<rparr>) w4)"
    using matchDriver_none [of gd w4 row cfg _ now offerId] n row w4(2) by simp
  from r show "rc_matchedDriver obj = None"
    unfolding e md by (auto simp: returning_def)
  have s: "select_ride rideId (snd (createRideRequest gd hav cfg now rideId offerId inp w))
      = Some (row\<lparr>rr_status := ''NO_DRIVERS''\<rparr>)"
    unfolding e md returning_simps snd_conv
    by (simp add: select_ride_update select_ride_append_fresh [OF fresh(1) row(1) w4(1)])
  show "map_option rr_status
       (select_ride rideId (snd (createRideRequest gd hav cfg now rideId offerId inp w)))
     = Some ''NO_DRIVERS''"
    unfolding s by simp
  show "map_option rr_match_attempts
       (select_ride rideId (snd (createRideRequest gd hav cfg now rideId offerId inp w)))
     = Some 0"
    unfolding s by (simp add: row)
qed


lemma empty_fields:
  "ride_requests empty_world = []" "driver_offers empty_world = []"
  "geo_key empty_world = (\<lambda>_. [])"
  by (simp_all add: empty_world_def)

lemma empty_nearby: "findNearbyDrivers gd empty_world la lo r reg vt n = []"
  by (simp add: findNearbyDrivers_eq georadius_asc_count_def georadius_def empty_fields)

theorem C10_createRideRequest_reports_matching_witness:
  "ride_requests empty_world = [] \<and> driver_offers empty_world = []
   \<and> findNearbyDrivers grid_dist empty_world (in_pickup_lat test_input) (in_pickup_lng test_input)
        (DEFAULT_SEARCH_RADIUS_KM default_config)
        (getRegionFromCoordinates (in_pickup_lat test_input) (in_pickup_lng test_input))
        (Some (in_tier test_input)) 10 = []
   \<and> (\<exists>obj. fst (createRideRequest grid_dist grid_dist default_config 1000 ''ride-1'' ''offer-1''
                   test_input empty_world) = Inr obj
          \<and> rc_status obj = ''MATCHING'' \<and> rc_matchAttempts obj = 1
          \<and> rc_matchedDriver obj = None)
   \<and> map_option rr_status
        (select_ride ''ride-1''
           (snd (createRideRequest grid_dist grid_dist default_config 1000 ''ride-1'' ''offer-1''
                   test_input empty_world))) = Some ''NO_DRIVERS''
   \<and> map_option rr_match_attempts
        (select_ride ''ride-1''
           (snd (createRideRequest grid_dist grid_dist default_config 1000 ''ride-1'' ''offer-1''
                   test_input empty_world))) = Some 0"
proof -
  note T = C10_createRideRequest_reports_matching
    [of "''ride-1''" empty_world test_input "''offer-1''" grid_dist grid_dist default_config 1000]
  have fresh: "''ride-1'' \<notin> rr_id ` set (ride_requests empty_world)
      \<and> in_idempotencyKey test_input \<notin> rr_idempotency_key ` set (ride_requests empty_world)
      \<and> ''offer-1'' \<notin> do_id ` set (driver_offers empty_world)"
    by (simp add: empty_fields)
  from T [THEN conjunct1, rule_format, OF fresh]
  obtain obj where obj: "fst (createRideRequest grid_dist grid_dist default_config 1000 ''ride-1''
      ''offer-1'' test_input empty_world) = Inr obj"
    by blast
  note R = T [THEN conjunct2, rule_format, OF obj]
  note N = R [THEN conjunct2, THEN conjunct2, rule_format, OF empty_nearby]
  have ex: "\<exists>obj. fst (createRideRequest grid_dist grid_dist default_config 1000 ''ride-1'' ''offer-1''
                   test_input empty_world) = Inr obj
          \<and> rc_status obj = ''MATCHING'' \<and> rc_matchAttempts obj = 1
          \<and> rc_matchedDriver obj = None"
    using obj R [THEN conjunct1] R [THEN conjunct2, THEN conjunct1] N [THEN conjunct1] by blast
  show ?thesis
    by (intro conjI) (rule empty_fields(1) empty_fields(2) empty_nearby ex N [THEN conjunct2, THEN conjunct1]
        N [THEN conjunct2, THEN conjunct2])+
qed


section \<open>The bound on match attempts\<close>

lemma matchDriver_increment:
  "(driver_offers (snd (matchDriver gd cfg now offerId ride region w)) = driver_offers w
      \<and> map rr_match_attempts (ride_requests (snd (matchDriver gd cfg now offerId ride region w)))
          = map rr_match_attempts (ride_requests w))
   \<or> (\<exists>d. driver_offers (snd (matchDriver gd cfg now offerId ride region w))
             = driver_offers w @ [offer_row cfg now offerId (rr_id ride) d]
        \<and> map rr_match_attempts (ride_requests (snd (matchDriver gd cfg now offerId ride region w)))
             = map (\<lambda>r. if rr_id r = rr_id ride then rr_match_attempts r + 1
                         else rr_match_attempts r) (ride_requests w))"
proof (cases "findNearbyDrivers gd w (rr_pickup_lat ride) (rr_pickup_lng ride)
             (DEFAULT_SEARCH_RADIUS_KM cfg) region (Some (rr_tier ride)) 10")
  case Nil
  show ?thesis
    unfolding matchDriver_none [OF Nil] by (simp add: map_attempts_same)
next
  case (Cons d ds)
  show ?thesis
  proof (cases "offerId \<in> do_id ` set (driver_offers w)")
    case True
    then show ?thesis by (simp add: matchDriver_duplicate [OF Cons])
  next
    case False
    have "map rr_match_attempts (ride_requests (snd (matchDriver gd cfg now offerId ride region w)))
             = map (\<lambda>r. if rr_id r = rr_id ride then rr_match_attempts r + 1
                         else rr_match_attempts r) (ride_requests w)"
      unfolding matchDriver_offer(2) [OF Cons False] by (simp add: comp_def if_distrib cong: if_cong)
    then show ?thesis
      using matchDriver_offer(3) [OF Cons False] by blast
  qed
qed

lemma offered_fields:
  "ride_requests offered_world = [ride_1]" "driver_offers offered_world = [offer_1]"
  "offer_key offered_world ''ride-1'' =
     Some \<lparr> oe_offerId = ''offer-1'', oe_driverId = ''D1'', oe_expiresAt = 16000 \<rparr>"
  "lock_key offered_world = (\<lambda>_. False)"
  by (simp_all add: offered_world_def seeded_world_def seed_driver_def empty_world_def)

lemma offered_nearby: "findNearbyDrivers gd offered_world = findNearbyDrivers gd seeded_world"
  by (simp add: offered_world_def)

lemma ride_1_fields:
  "rr_id ride_1 = ''ride-1''" "rr_match_attempts ride_1 = 1" "rr_status ride_1 = ''MATCHING''"
  "rr_tier ride_1 = ''ECONOMY''" "rr_driver_id ride_1 = Some ''D1''"
  "getRegionFromCoordinates (rr_pickup_lat ride_1) (rr_pickup_lng ride_1) = ''bangalore''"
  by (simp_all add: ride_1_def getRegionFromCoordinates_def)

lemma maxed_fields:
  "ride_requests maxed_world = [ride_1\<lparr>rr_match_attempts := 5\<rparr>]"
  "driver_offers maxed_world = [offer_1]"
  by (simp_all add: maxed_world_def offered_fields)

text \<open>
  Claim C8. Along every sequence of dispatch operations (create, driver response, timeout
  check, cancel, with any change of the proximity index and any expiry of offer keys in
  between) the \<^verbatim>\<open>match_attempts\<close> of every ride stays at most \<^verbatim>\<open>MAX_MATCH_ATTEMPTS\<close> and
  never decreases; the attempts added over the sequence are exactly the offers created; a
  call of \<^verbatim>\<open>matchDriver\<close> either creates no offer and changes no count or creates one
  offer and adds one to the ride's count; and a decline arriving at the maximum sets the
  ride to \<open>EXPIRED\<close> with reason "Max match attempts reached" and creates no offer.
\<close>

theorem C8_matchAttempts_bounded:
  assumes "1 \<le> MAX_MATCH_ATTEMPTS cfg" and "attempts_bounded cfg w"
  shows "attempts_bounded cfg (run gd hav cfg ops w)
   \<and> attempts_not_decreased (ride_requests w) (ride_requests (run gd hav cfg ops w))
   \<and> total_attempts (run gd hav cfg ops w) - total_attempts w
        = int (length (driver_offers (run gd hav cfg ops w))) - int (length (driver_offers w))
   \<and> ((driver_offers (snd (matchDriver gd cfg now offerId ride region w)) = driver_offers w
          \<and> map rr_match_attempts (ride_requests (snd (matchDriver gd cfg now offerId ride region w)))
              = map rr_match_attempts (ride_requests w))
       \<or> (\<exists>d. driver_offers (snd (matchDriver gd cfg now offerId ride region w))
                 = driver_offers w @ [offer_row cfg now offerId (rr_id ride) d]
            \<and> map rr_match_attempts (ride_requests (snd (matchDriver gd cfg now offerId ride region w)))
                 = map (\<lambda>r. if rr_id r = rr_id ride then rr_match_attempts r + 1
                             else rr_match_attempts r) (ride_requests w)))
   \<and> (select_ride rideId w = Some ride \<and> MAX_MATCH_ATTEMPTS cfg \<le> rr_match_attempts ride
        \<and> dr_action resp = DECLINE \<longrightarrow>
          fst (handleDriverResponse gd cfg now offerId rideId resp w) =
            Inr \<lparr> res_status = ''EXPIRED'', res_driverId = None,
                  res_reason = Some ''Max match attempts reached'' \<rparr>
          \<and> select_ride rideId (snd (handleDriverResponse gd cfg now offerId rideId resp w)) =
              Some (ride\<lparr>rr_status := ''EXPIRED''\<rparr>)
          \<and> length (driver_offers (snd (handleDriverResponse gd cfg now offerId rideId resp w))) =
              length (driver_offers w)
          \<and> map rr_match_attempts
                (ride_requests (snd (handleDriverResponse gd cfg now offerId rideId resp w))) =
              map rr_match_attempts (ride_requests w))"
proof -
  have d: "select_ride rideId w = Some ride \<and> MAX_MATCH_ATTEMPTS cfg \<le> rr_match_attempts ride
        \<and> dr_action resp = DECLINE \<longrightarrow>
          fst (handleDriverResponse gd cfg now offerId rideId resp w) =
            Inr \<lparr> res_status = ''EXPIRED'', res_driverId = None,
                  res_reason = Some ''Max match attempts reached'' \<rparr>
          \<and> select_ride rideId (snd (handleDriverResponse gd cfg now offerId rideId resp w)) =
              Some (ride\<lparr>rr_status := ''EXPIRED''\<rparr>)
          \<and> length (driver_offers (snd (handleDriverResponse gd cfg now offerId rideId resp w))) =
              length (driver_offers w)
          \<and> map rr_match_attempts
                (ride_requests (snd (handleDriverResponse gd cfg now offerId rideId resp w))) =
              map rr_match_attempts (ride_requests w)"
    using decline_at_max [of rideId w ride cfg resp gd now offerId] by blast
  show ?thesis
    by (intro conjI)
       (rule run_bounded [OF assms] run_not_decreased run_accounting [OF assms]
          matchDriver_increment d)+
qed

theorem C8_matchAttempts_bounded_witness:
  "1 \<le> MAX_MATCH_ATTEMPTS default_config
   \<and> attempts_bounded default_config maxed_world
   \<and> select_ride ''ride-1'' maxed_world = Some (ride_1\<lparr>rr_match_attempts := 5\<rparr>)
   \<and> MAX_MATCH_ATTEMPTS default_config \<le> rr_match_attempts (ride_1\<lparr>rr_match_attempts := 5\<rparr>)
   \<and> attempts_bounded default_config
        (run grid_dist grid_dist default_config
           [OpCheckTimeout 20000 ''offer-2'' ''ride-1'',
            OpCreate 30000 ''ride-2'' ''offer-3'' test_input] maxed_world)
   \<and> fst (handleDriverResponse grid_dist default_config 2000 ''offer-2'' ''ride-1''
            \<lparr> dr_driverId = ''D1'', dr_action = DECLINE, dr_reason = None \<rparr> maxed_world) =
        Inr \<lparr> res_status = ''EXPIRED'', res_driverId = None,
              res_reason = Some ''Max match attempts reached'' \<rparr>
   \<and> select_ride ''ride-1''
        (snd (handleDriverResponse grid_dist default_config 2000 ''offer-2'' ''ride-1''
            \<lparr> dr_driverId = ''D1'', dr_action = DECLINE, dr_reason = None \<rparr> maxed_world)) =
        Some (ride_1\<lparr>rr_match_attempts := 5, rr_status := ''EXPIRED''\<rparr>)"
proof -
  have m: "1 \<le> MAX_MATCH_ATTEMPTS default_config"
    by (simp add: default_config_def)
  have b: "attempts_bounded default_config maxed_world"
    by (simp add: attempts_bounded_def maxed_fields default_config_def)
  have s: "select_ride ''ride-1'' maxed_world = Some (ride_1\<lparr>rr_match_attempts := 5\<rparr>)"
    by (simp add: select_ride_def maxed_fields ride_1_fields)
  have a: "MAX_MATCH_ATTEMPTS default_config \<le> rr_match_attempts (ride_1\<lparr>rr_match_attempts := 5\<rparr>)"
    by (simp add: default_config_def)
  note T = C8_matchAttempts_bounded [OF m b, of grid_dist grid_dist
      "[OpCheckTimeout 20000 ''offer-2'' ''ride-1'', OpCreate 30000 ''ride-2'' ''offer-3'' test_input]"
      2000 "''offer-2''" "ride_1\<lparr>rr_match_attempts := 5\<rparr>" _ "''ride-1''"
      "\<lparr> dr_driverId = ''D1'', dr_action = DECLINE, dr_reason = None \<rparr>"]
  note D = T [THEN conjunct2, THEN conjunct2, THEN conjunct2, THEN conjunct2, rule_format]
  have h: "select_ride ''ride-1'' maxed_world = Some (ride_1\<lparr>rr_match_attempts := 5\<rparr>)
      \<and> MAX_MATCH_ATTEMPTS default_config \<le> rr_match_attempts (ride_1\<lparr>rr_match_attempts := 5\<rparr>)
      \<and> dr_action \<lparr> dr_driverId = ''D1'', dr_action = DECLINE, dr_reason = None \<rparr> = DECLINE"
    using s a by simp
  show ?thesis
    by (intro conjI)
       (rule m b s a T [THEN conjunct1] D [OF h, THEN conjunct1]
          D [OF h, THEN conjunct2, THEN conjunct1])+
qed


section \<open>The scenes as states of the code\<close>

lemma input_cell:
  "latLngToGeoCell (in_pickup_lat test_input) (in_pickup_lng test_input) = ''h3_81297177594ffffff''"
proof -
  have a: "\<lfloor>(129716 / 10000 :: rat) * 1000\<rfloor> = 12971" by (simp add: floor_unique)
  have b: "\<lfloor>(775946 / 10000 :: rat) * 1000\<rfloor> = 77594" by (simp add: floor_unique)
  have c: "nat_to_string 12971 = ''12971''" by (simp add: nat_to_string.simps)
  have d: "nat_to_string 77594 = ''77594''" by (simp add: nat_to_string.simps)
  have i: "in_pickup_lat test_input = 129716 / 10000" "in_pickup_lng test_input = 775946 / 10000"
    by (simp_all add: test_input_def)
  show ?thesis
    unfolding i latLngToGeoCell_def Let_def a b int_to_string_def using c d by simp
qed

lemma input_region:
  "getRegionFromCoordinates (in_pickup_lat test_input) (in_pickup_lng test_input) = ''bangalore''"
  by (simp add: getRegionFromCoordinates_def test_input_def)

lemma seeded_fields:
  "ride_requests seeded_world = []" "driver_offers seeded_world = []"
  "demand_key seeded_world = Map.empty" "surge_key seeded_world = Map.empty"
  "published seeded_world = []" "offer_key seeded_world = Map.empty"
  "surge_cells_key seeded_world = (\<lambda>_. [])"
  by (simp_all add: seeded_world_def seed_driver_def empty_world_def)

lemma getSupplyCount_demand [simp]:
  "getSupplyCount gd region la lo (w\<lparr>demand_key := d\<rparr>) = getSupplyCount gd region la lo w"
  by (simp add: getSupplyCount_def)

lemma seeded_supply:
  "getSupplyCount grid_dist ''bangalore'' (in_pickup_lat test_input) (in_pickup_lng test_input)
     seeded_world = 2"
  by code_simp

lemma surge_2_1: "computeSurgeMultiplier 2 (Suc 0) = 1"
  by code_simp

lemma input_fare:
  "calculateEstimatedFare default_config
     (grid_dist (in_pickup_lat test_input) (in_pickup_lng test_input)
        (in_destination_lat test_input) (in_destination_lng test_input)) 1 = 5043 / 100"
  by code_simp

lemma seeded_nearby_input:
  "findNearbyDrivers grid_dist seeded_world (in_pickup_lat test_input) (in_pickup_lng test_input)
     5 ''bangalore'' (Some (in_tier test_input)) 10 =
   [\<lparr> nd_driverId = ''D1'', nd_distanceKm = 0, nd_latitude = 129716 / 10000,
      nd_longitude = 775946 / 10000, nd_vehicleType = ''ECONOMY'', nd_status = Some ''ONLINE'',
      nd_heading = 0, nd_speed = 0 \<rparr>,
    \<lparr> nd_driverId = ''D2'', nd_distanceKm = 8 / 10000, nd_latitude = 12972 / 1000,
      nd_longitude = 77595 / 1000, nd_vehicleType = ''ECONOMY'', nd_status = Some ''ONLINE'',
      nd_heading = 0, nd_speed = 0 \<rparr>]"
  by code_simp

lemma created_surge:
  "getSurgeForLocation grid_dist 1000 (in_pickup_lat test_input) (in_pickup_lng test_input)
     (snd (incrementDemand ''h3_81297177594ffffff'' ''bangalore'' seeded_world)) =
   (\<lparr> sd_geoCell = ''h3_81297177594ffffff'', sd_surgeMultiplier = 1, sd_supplyCount = 2,
      sd_demandCount = 1 \<rparr>,
    publishEvent ''surge.updated'' ''h3_81297177594ffffff''
      (seeded_world
         \<lparr> demand_key := [''h3_81297177594ffffff'' \<mapsto> 1],
           surge_key := [''h3_81297177594ffffff'' \<mapsto>
             \<lparr> se_multiplier = 1, se_supply = 2, se_demand = 1, se_region = ''bangalore'',
               se_updatedAt = 1000 \<rparr>],
           surge_cells_key := (\<lambda>_. [])(''bangalore'' := [''h3_81297177594ffffff'']) \<rparr>))"
  by (simp add: getSurgeForLocation_def getSurgeForCell_def incrementDemand_def Let_def
      calculateSurge_def input_cell input_region seeded_fields seeded_supply surge_2_1)


lemma created_match:
  "matchDriver grid_dist default_config 1000 ''offer-1'' row ''bangalore'' w =
     (Inr \<lparr> mr_driver = Some \<lparr> md_driverId = ''D1'', md_distanceKm = 0, md_eta = 0 \<rparr>,
            mr_matched = True \<rparr>,
      publishEvent ''ride.matched'' (rr_id row)
        (update_ride (rr_id row)
           (\<lambda>r. r\<lparr>rr_current_driver_offer_id := Some ''offer-1'', rr_driver_id := Some ''D1'',
                   rr_match_attempts := rr_match_attempts r + 1\<rparr>)
           (w\<lparr>driver_offers := driver_offers w @ [offer_1\<lparr>do_ride_request_id := rr_id row\<rparr>]\<rparr>)
         \<lparr>offer_key := (offer_key w)(rr_id row \<mapsto>
            \<lparr> oe_offerId = ''offer-1'', oe_driverId = ''D1'', oe_expiresAt = 16000 \<rparr>)\<rparr>))"
  if "findNearbyDrivers grid_dist w = findNearbyDrivers grid_dist seeded_world"
    and "rr_pickup_lat row = in_pickup_lat test_input" "rr_pickup_lng row = in_pickup_lng test_input"
    and "rr_tier row = in_tier test_input" and "driver_offers w = []"
  using that
  by (simp add: matchDriver_def Let_def seeded_nearby_input offer_1_def default_config_def
      update_ride_def)

text \<open>
  The offered state of the scenes is what the code makes of the seeded state and the test
  request.
\<close>

lemma offered_world_created:
  "createRideRequest grid_dist grid_dist default_config 1000 ''ride-1'' ''offer-1'' test_input
     seeded_world =
   (Inr \<lparr> rc_id = ''ride-1'', rc_status = ''MATCHING'', rc_riderId = ''R1'',
          rc_pickup = (129716 / 10000, 775946 / 10000),
          rc_destination = (1298 / 100, 7761 / 100), rc_tier = ''ECONOMY'',
          rc_surgeMultiplier = 1, rc_estimatedFare = 5043 / 100,
          rc_matchedDriver = Some \<lparr> md_driverId = ''D1'', md_distanceKm = 0, md_eta = 0 \<rparr>,
          rc_matchAttempts = 1 \<rparr>,
    offered_world)"
  apply (simp add: createRideRequest_def Let_def input_cell input_region created_surge
      seeded_fields input_fare)
  apply (subst created_match)
  apply (simp_all add: seeded_fields)
  apply (simp add: returning_def offered_world_def ride_1_def offer_1_def test_input_def
      publishEvent_def update_ride_def seeded_fields)
  done

lemma offered_world_run:
  "run grid_dist grid_dist default_config [OpCreate 1000 ''ride-1'' ''offer-1'' test_input]
     seeded_world = offered_world"
  by (simp add: offered_world_created)


section \<open>Driver responses\<close>

lemma handleDriverResponse_accept:
  assumes "select_ride rideId w = Some ride" "dr_action resp = ACCEPT"
  shows "fst (handleDriverResponse gd cfg now offerId rideId resp w) =
       Inr \<lparr> res_status = ''ACCEPTED'', res_driverId = Some (dr_driverId resp), res_reason = None \<rparr>"
    and "ride_requests (snd (handleDriverResponse gd cfg now offerId rideId resp w)) =
       map (\<lambda>r. if rr_id r = rideId
                 then r\<lparr>rr_status := ''ACCEPTED'', rr_driver_id := Some (dr_driverId resp)\<rparr>
                 else r) (ride_requests w)"
    and "driver_offers (snd (handleDriverResponse gd cfg now offerId rideId resp w)) =
       map (\<lambda>offer. if do_ride_request_id offer = rideId \<and> do_driver_id offer = dr_driverId resp
                     then offer\<lparr>do_status := ''ACCEPTED'', do_responded_at := Some now\<rparr>
                     else offer) (driver_offers w)"
    and "offer_key (snd (handleDriverResponse gd cfg now offerId rideId resp w)) =
       (offer_key w)(rideId := None)"
  using assms by (simp_all add: handleDriverResponse_def Let_def)

lemma handleDriverResponse_ignores_lock:
  "fst (handleDriverResponse gd cfg now offerId rideId resp (w\<lparr>lock_key := l\<rparr>)) =
     fst (handleDriverResponse gd cfg now offerId rideId resp w)"
  "lock_key (snd (handleDriverResponse gd cfg now offerId rideId resp w)) = lock_key w"
proof -
  have m: "fst (matchDriver gd cfg now offerId ride region (w'\<lparr>lock_key := l\<rparr>)) =
      fst (matchDriver gd cfg now offerId ride region w')" for ride region w'
    by (simp add: matchDriver_def Let_def split: list.split)
  have u: "update_offers i d f (w\<lparr>lock_key := l\<rparr>) = (update_offers i d f w)\<lparr>lock_key := l\<rparr>" for i d f
    by (simp add: update_offers_def)
  have p: "publishEvent t k (w'\<lparr>lock_key := l\<rparr>) = (publishEvent t k w')\<lparr>lock_key := l\<rparr>" for t k w'
    by (simp add: publishEvent_def)
  show "fst (handleDriverResponse gd cfg now offerId rideId resp (w\<lparr>lock_key := l\<rparr>)) =
     fst (handleDriverResponse gd cfg now offerId rideId resp w)"
    by (simp add: handleDriverResponse_def Let_def select_ride_def u p m
        split: option.split action.split)
  show "lock_key (snd (handleDriverResponse gd cfg now offerId rideId resp w)) = lock_key w"
    by (simp add: handleDriverResponse_def Let_def split: option.split action.split)
qed

lemma select_offered: "select_ride ''ride-1'' offered_world = Some ride_1"
  by (simp add: select_ride_def offered_fields ride_1_fields)

lemma seeded_nearby_ride_1:
  "findNearbyDrivers grid_dist seeded_world (rr_pickup_lat ride_1) (rr_pickup_lng ride_1)
     (DEFAULT_SEARCH_RADIUS_KM default_config) ''bangalore'' (Some (rr_tier ride_1)) 10 =
   [\<lparr> nd_driverId = ''D1'', nd_distanceKm = 0, nd_latitude = 129716 / 10000,
      nd_longitude = 775946 / 10000, nd_vehicleType = ''ECONOMY'', nd_status = Some ''ONLINE'',
      nd_heading = 0, nd_speed = 0 \<rparr>,
    \<lparr> nd_driverId = ''D2'', nd_distanceKm = 8 / 10000, nd_latitude = 12972 / 1000,
      nd_longitude = 77595 / 1000, nd_vehicleType = ''ECONOMY'', nd_status = Some ''ONLINE'',
      nd_heading = 0, nd_speed = 0 \<rparr>]"
  by code_simp

lemma accepted_fields:
  "ride_requests accepted_world = [ride_1\<lparr>rr_status := ''ACCEPTED'', rr_driver_id := Some ''D1''\<rparr>]"
  "driver_offers accepted_world = [offer_1\<lparr>do_status := ''ACCEPTED'', do_responded_at := Some 2000\<rparr>]"
  "offer_key accepted_world ''ride-1'' = None"
  unfolding accepted_world_def
  by (simp_all add: handleDriverResponse_accept [OF select_offered] offered_fields ride_1_fields
      offer_1_def)

lemma select_accepted:
  "select_ride ''ride-1'' accepted_world =
     Some (ride_1\<lparr>rr_status := ''ACCEPTED'', rr_driver_id := Some ''D1''\<rparr>)"
  by (simp add: select_ride_def accepted_fields ride_1_fields)

text \<open>
  Claim C1 on the code. The ride \<open>ride-1\<close> was offered to \<open>D1\<close> and accepted by \<open>D1\<close>:
  its status is \<open>ACCEPTED\<close>, its only offer (to \<open>D1\<close>) is \<open>ACCEPTED\<close>, and the offer key
  is gone. A second \<open>ACCEPT\<close>, by \<open>D2\<close>, who never had an offer for the ride, is not
  refused: it returns \<open>{status: ACCEPTED, driverId: D2}\<close> and overwrites the ride's driver.
\<close>

theorem C1_second_accept_succeeds:
  "select_ride ''ride-1'' accepted_world =
     Some (ride_1\<lparr>rr_status := ''ACCEPTED'', rr_driver_id := Some ''D1''\<rparr>)
   \<and> driver_offers accepted_world =
       [offer_1\<lparr>do_status := ''ACCEPTED'', do_responded_at := Some 2000\<rparr>]
   \<and> offer_key accepted_world ''ride-1'' = None
   \<and> fst (handleDriverResponse grid_dist default_config 3000 ''offer-3'' ''ride-1''
            \<lparr> dr_driverId = ''D2'', dr_action = ACCEPT, dr_reason = None \<rparr> accepted_world) =
       Inr \<lparr> res_status = ''ACCEPTED'', res_driverId = Some ''D2'', res_reason = None \<rparr>
   \<and> ride_requests
        (snd (handleDriverResponse grid_dist default_config 3000 ''offer-3'' ''ride-1''
            \<lparr> dr_driverId = ''D2'', dr_action = ACCEPT, dr_reason = None \<rparr> accepted_world)) =
       [ride_1\<lparr>rr_status := ''ACCEPTED'', rr_driver_id := Some ''D2''\<rparr>]"
proof -
  have a: "dr_action \<lparr> dr_driverId = ''D2'', dr_action = ACCEPT, dr_reason = None \<rparr> = ACCEPT"
    by simp
  note H = handleDriverResponse_accept [OF select_accepted a, of grid_dist default_config 3000 "''offer-3''"]
  have r: "ride_requests
        (snd (handleDriverResponse grid_dist default_config 3000 ''offer-3'' ''ride-1''
            \<lparr> dr_driverId = ''D2'', dr_action = ACCEPT, dr_reason = None \<rparr> accepted_world)) =
       [ride_1\<lparr>rr_status := ''ACCEPTED'', rr_driver_id := Some ''D2''\<rparr>]"
    unfolding H(2) by (simp add: accepted_fields ride_1_fields)
  have f: "fst (handleDriverResponse grid_dist default_config 3000 ''offer-3'' ''ride-1''
            \<lparr> dr_driverId = ''D2'', dr_action = ACCEPT, dr_reason = None \<rparr> accepted_world) =
       Inr \<lparr> res_status = ''ACCEPTED'', res_driverId = Some ''D2'', res_reason = None \<rparr>"
    unfolding H(1) by simp
  show ?thesis
    by (intro conjI) (rule select_accepted accepted_fields f r)+
qed

text \<open>
  Claim C2 on the code. With the key \<^verbatim>\<open>lock:ride:ride-1\<close> held, \<^verbatim>\<open>handleDriverResponse\<close>
  does not fail: it accepts the offer and changes the ride, and leaves the key as it was.
  By \<open>handleDriverResponse_ignores_lock\<close> its result never depends on that key and it
  never writes it.
\<close>

theorem C2_accept_with_lock_held:
  "lock_key locked_world ''ride-1''
   \<and> fst (handleDriverResponse grid_dist default_config 2000 ''offer-2'' ''ride-1''
            \<lparr> dr_driverId = ''D1'', dr_action = ACCEPT, dr_reason = None \<rparr> locked_world) =
       Inr \<lparr> res_status = ''ACCEPTED'', res_driverId = Some ''D1'', res_reason = None \<rparr>
   \<and> ride_requests
        (snd (handleDriverResponse grid_dist default_config 2000 ''offer-2'' ''ride-1''
            \<lparr> dr_driverId = ''D1'', dr_action = ACCEPT, dr_reason = None \<rparr> locked_world)) =
       [ride_1\<lparr>rr_status := ''ACCEPTED'', rr_driver_id := Some ''D1''\<rparr>]
   \<and> lock_key
        (snd (handleDriverResponse grid_dist default_config 2000 ''offer-2'' ''ride-1''
            \<lparr> dr_driverId = ''D1'', dr_action = ACCEPT, dr_reason = None \<rparr> locked_world)) ''ride-1''"
proof -
  have l: "lock_key locked_world ''ride-1''"
    by (simp add: locked_world_def)
  have s: "select_ride ''ride-1'' locked_world = Some ride_1"
    using select_offered by (simp add: select_ride_def locked_world_def)
  have a: "dr_action \<lparr> dr_driverId = ''D1'', dr_action = ACCEPT, dr_reason = None \<rparr> = ACCEPT"
    by simp
  note H = handleDriverResponse_accept [OF s a, of grid_dist default_config 2000 "''offer-2''"]
  have f: "fst (handleDriverResponse grid_dist default_config 2000 ''offer-2'' ''ride-1''
            \<lparr> dr_driverId = ''D1'', dr_action = ACCEPT, dr_reason = None \<rparr> locked_world) =
       Inr \<lparr> res_status = ''ACCEPTED'', res_driverId = Some ''D1'', res_reason = None \<rparr>"
    unfolding H(1) by simp
  have r: "ride_requests
        (snd (handleDriverResponse grid_dist default_config 2000 ''offer-2'' ''ride-1''
            \<lparr> dr_driverId = ''D1'', dr_action = ACCEPT, dr_reason = None \<rparr> locked_world)) =
       [ride_1\<lparr>rr_status := ''ACCEPTED'', rr_driver_id := Some ''D1''\<rparr>]"
    unfolding H(2) by (simp add: locked_world_def offered_fields ride_1_fields)
  have k: "lock_key
        (snd (handleDriverResponse grid_dist default_config 2000 ''offer-2'' ''ride-1''
            \<lparr> dr_driverId = ''D1'', dr_action = ACCEPT, dr_reason = None \<rparr> locked_world)) ''ride-1''"
    unfolding handleDriverResponse_ignores_lock(2) by (rule l)
  show ?thesis
    by (intro conjI) (rule l f r k)+
qed


lemma seeded_nearby_economy:
  "findNearbyDrivers grid_dist seeded_world (rr_pickup_lat ride_1) (rr_pickup_lng ride_1)
     (DEFAULT_SEARCH_RADIUS_KM default_config) ''bangalore'' (Some ''ECONOMY'') 10 =
   [\<lparr> nd_driverId = ''D1'', nd_distanceKm = 0, nd_latitude = 129716 / 10000,
      nd_longitude = 775946 / 10000, nd_vehicleType = ''ECONOMY'', nd_status = Some ''ONLINE'',
      nd_heading = 0, nd_speed = 0 \<rparr>,
    \<lparr> nd_driverId = ''D2'', nd_distanceKm = 8 / 10000, nd_latitude = 12972 / 1000,
      nd_longitude = 77595 / 1000, nd_vehicleType = ''ECONOMY'', nd_status = Some ''ONLINE'',
      nd_heading = 0, nd_speed = 0 \<rparr>]"
  using seeded_nearby_ride_1 unfolding ride_1_fields(4) .

text \<open>
  Claim C3 on the code. \<open>D1\<close> (nearest) and \<open>D2\<close> are both eligible for \<open>ride-1\<close>,
  whose offer went to \<open>D1\<close>. When \<open>D1\<close> declines, the response is
  \<open>{status: REASSIGNED}\<close>, but the next offer goes to \<open>D1\<close> again: the list without
  the declined drivers only decides whether to go on, and \<^verbatim>\<open>matchDriver\<close> then takes the
  nearest driver of a fresh, unfiltered search.
\<close>

theorem C3_declined_driver_offered_again:
  "map nd_driverId
     (findNearbyDrivers grid_dist offered_world (rr_pickup_lat ride_1) (rr_pickup_lng ride_1)
        (DEFAULT_SEARCH_RADIUS_KM default_config) ''bangalore'' (Some (rr_tier ride_1)) 10)
     = [''D1'', ''D2'']
   \<and> fst (handleDriverResponse grid_dist default_config 2000 ''offer-2'' ''ride-1''
            \<lparr> dr_driverId = ''D1'', dr_action = DECLINE, dr_reason = Some ''Too far'' \<rparr>
            offered_world) =
       Inr \<lparr> res_status = ''REASSIGNED'', res_driverId = None, res_reason = None \<rparr>
   \<and> offer_key
        (snd (handleDriverResponse grid_dist default_config 2000 ''offer-2'' ''ride-1''
            \<lparr> dr_driverId = ''D1'', dr_action = DECLINE, dr_reason = Some ''Too far'' \<rparr>
            offered_world)) ''ride-1'' =
       Some \<lparr> oe_offerId = ''offer-2'', oe_driverId = ''D1'', oe_expiresAt = 17000 \<rparr>
   \<and> driver_offers
        (snd (handleDriverResponse grid_dist default_config 2000 ''offer-2'' ''ride-1''
            \<lparr> dr_driverId = ''D1'', dr_action = DECLINE, dr_reason = Some ''Too far'' \<rparr>
            offered_world)) =
       [offer_1\<lparr>do_status := ''DECLINED'', do_responded_at := Some 2000,
                do_decline_reason := Some ''Too far''\<rparr>,
        offer_row default_config 2000 ''offer-2'' ''ride-1'' ''D1'']"
proof -
  let ?w2 = "publishEvent ''ride.declined'' ''ride-1''
      (update_offers ''ride-1'' ''D1''
         (\<lambda>offer. offer\<lparr>do_status := ''DECLINED'', do_responded_at := Some 2000,
            do_decline_reason := Some ''Too far''\<rparr>) offered_world)"
  have n: "map nd_driverId
     (findNearbyDrivers grid_dist offered_world (rr_pickup_lat ride_1) (rr_pickup_lng ride_1)
        (DEFAULT_SEARCH_RADIUS_KM default_config) ''bangalore'' (Some (rr_tier ride_1)) 10)
     = [''D1'', ''D2'']"
    by (simp add: offered_nearby seeded_nearby_ride_1)
  have e: "handleDriverResponse grid_dist default_config 2000 ''offer-2'' ''ride-1''
            \<lparr> dr_driverId = ''D1'', dr_action = DECLINE, dr_reason = Some ''Too far'' \<rparr>
            offered_world =
      returning (matchDriver grid_dist default_config 2000 ''offer-2'' ride_1 ''bangalore'' ?w2)
        (\<lambda>_. \<lparr> res_status = ''REASSIGNED'', res_driverId = None, res_reason = None \<rparr>)"
    by (auto simp: handleDriverResponse_def Let_def select_offered ride_1_fields
        offered_nearby seeded_nearby_economy offered_fields offer_1_def str_or_def
        default_config_def [THEN arg_cong, of MAX_MATCH_ATTEMPTS])
  have c: "findNearbyDrivers grid_dist ?w2 (rr_pickup_lat ride_1) (rr_pickup_lng ride_1)
     (DEFAULT_SEARCH_RADIUS_KM default_config) ''bangalore'' (Some (rr_tier ride_1)) 10 =
     \<lparr> nd_driverId = ''D1'', nd_distanceKm = 0, nd_latitude = 129716 / 10000,
      nd_longitude = 775946 / 10000, nd_vehicleType = ''ECONOMY'', nd_status = Some ''ONLINE'',
      nd_heading = 0, nd_speed = 0 \<rparr> #
    [\<lparr> nd_driverId = ''D2'', nd_distanceKm = 8 / 10000, nd_latitude = 12972 / 1000,
      nd_longitude = 77595 / 1000, nd_vehicleType = ''ECONOMY'', nd_status = Some ''ONLINE'',
      nd_heading = 0, nd_speed = 0 \<rparr>]"
    by (simp add: offered_nearby seeded_nearby_ride_1)
  have f: "''offer-2'' \<notin> do_id ` set (driver_offers ?w2)"
    by (simp add: offered_fields offer_1_def)
  note M = matchDriver_offer [OF c f, of 2000]
  have r: "fst (handleDriverResponse grid_dist default_config 2000 ''offer-2'' ''ride-1''
            \<lparr> dr_driverId = ''D1'', dr_action = DECLINE, dr_reason = Some ''Too far'' \<rparr>
            offered_world) =
       Inr \<lparr> res_status = ''REASSIGNED'', res_driverId = None, res_reason = None \<rparr>"
    unfolding e by (simp add: M(1))
  have k: "offer_key
        (snd (handleDriverResponse grid_dist default_config 2000 ''offer-2'' ''ride-1''
            \<lparr> dr_driverId = ''D1'', dr_action = DECLINE, dr_reason = Some ''Too far'' \<rparr>
            offered_world)) ''ride-1'' =
       Some \<lparr> oe_offerId = ''offer-2'', oe_driverId = ''D1'', oe_expiresAt = 17000 \<rparr>"
    unfolding e returning_simps M(4) by (simp add: ride_1_fields default_config_def)
  have o: "driver_offers
        (snd (handleDriverResponse grid_dist default_config 2000 ''offer-2'' ''ride-1''
            \<lparr> dr_driverId = ''D1'', dr_action = DECLINE, dr_reason = Some ''Too far'' \<rparr>
            offered_world)) =
       [offer_1\<lparr>do_status := ''DECLINED'', do_responded_at := Some 2000,
                do_decline_reason := Some ''Too far''\<rparr>,
        offer_row default_config 2000 ''offer-2'' ''ride-1'' ''D1'']"
    unfolding e returning_simps M(3) by (simp add: ride_1_fields offered_fields offer_1_def)
  show ?thesis
    by (intro conjI) (rule n r k o)+
qed


section \<open>Timeout checks\<close>

lemma update_offers_ids:
  assumes "\<And>offer. do_id (f offer) = do_id offer"
  shows "do_id ` set (driver_offers (update_offers i d f w)) = do_id ` set (driver_offers w)"
proof -
  have "map (do_id \<circ> (\<lambda>offer. if do_ride_request_id offer = i \<and> do_driver_id offer = d
                                then f offer else offer)) xs = map do_id xs" for xs
    by (induction xs) (simp_all add: assms)
  then have "map do_id (driver_offers (update_offers i d f w)) = map do_id (driver_offers w)"
    by simp
  then have "set (map do_id (driver_offers (update_offers i d f w))) = set (map do_id (driver_offers w))"
    by (rule arg_cong)
  then show ?thesis by (simp only: set_map)
qed

lemma handleDriverResponse_decline_returns:
  assumes "select_ride rideId w = Some ride" "dr_action resp = DECLINE"
    "offerId \<notin> do_id ` set (driver_offers w)"
  shows "\<exists>r. fst (handleDriverResponse gd cfg now offerId rideId resp w) = Inr r"
proof -
  let ?w2 = "publishEvent ''ride.declined'' rideId
        (update_offers rideId (dr_driverId resp)
           (\<lambda>offer. offer\<lparr>do_status := ''DECLINED'', do_responded_at := Some now,
              do_decline_reason := Some (str_or (dr_reason resp) ''Not specified'')\<rparr>) w)"
  have ids: "do_id ` set (driver_offers ?w2) = do_id ` set (driver_offers w)"
    unfolding publishEvent_fields by (rule update_offers_ids) simp
  have "offerId \<notin> do_id ` set (driver_offers ?w2)"
    unfolding ids by (rule assms(3))
  from matchDriver_returns [OF this]
  have m: "\<exists>m. fst (matchDriver gd cfg now offerId ride region ?w2) = Inr m" for region
    by blast
  have md: "\<exists>r. (case fst (matchDriver gd cfg now offerId ride region ?w2) of
                Inl e \<Rightarrow> Inl e | Inr x \<Rightarrow> Inr (g x)) = Inr r" for region and g :: "match_result \<Rightarrow> response_result"
  proof -
    from m [of region] obtain x where "fst (matchDriver gd cfg now offerId ride region ?w2) = Inr x"
      by blast
    then show ?thesis by simp
  qed
  show ?thesis
    using assms(1,2) md
    by (simp add: handleDriverResponse_def Let_def)
qed

lemma handleDriverResponse_decline_offers:
  assumes "select_ride rideId w = Some ride" "dr_action resp = DECLINE"
  shows "take (length (driver_offers w))
       (driver_offers (snd (handleDriverResponse gd cfg now offerId rideId resp w))) =
     map (\<lambda>offer. if do_ride_request_id offer = rideId \<and> do_driver_id offer = dr_driverId resp
                   then offer\<lparr>do_status := ''DECLINED'', do_responded_at := Some now,
                          do_decline_reason := Some (str_or (dr_reason resp) ''Not specified'')\<rparr>
                   else offer) (driver_offers w)"
proof -
  let ?w2 = "publishEvent ''ride.declined'' rideId
        (update_offers rideId (dr_driverId resp)
           (\<lambda>offer. offer\<lparr>do_status := ''DECLINED'', do_responded_at := Some now,
              do_decline_reason := Some (str_or (dr_reason resp) ''Not specified'')\<rparr>) w)"
  have l: "length (driver_offers ?w2) = length (driver_offers w)" by simp
  have m: "take (length (driver_offers ?w2))
      (driver_offers (snd (matchDriver gd cfg now offerId ride region ?w2))) = driver_offers ?w2"
    for region
    by (simp add: matchDriver_def Let_def split: list.split)
  show ?thesis
    using assms m [unfolded l]
    by (simp add: handleDriverResponse_def Let_def)
qed

text \<open>
  Claim C4, as the code has it. \<^verbatim>\<open>checkTimeout\<close> returns \<open>{timedOut: false}\<close> and
  changes nothing when the entry \<^verbatim>\<open>ride:{rideId}:offer\<close> is absent, and when it is present
  and its \<open>expiresAt\<close> is not before now. When the entry is present and its \<open>expiresAt\<close>
  has passed, it runs \<^verbatim>\<open>handleDriverResponse\<close> with action \<open>DECLINE\<close> and reason
  "Timeout" for the entry's driver; for an existing ride (and a fresh id for the next
  offer) that returns \<open>{timedOut: true}\<close> and marks that driver's offers for the ride
  \<open>DECLINED\<close> with reason "Timeout".
\<close>

theorem C4_checkTimeout_entry_present_and_expired:
  "(offer_key w rideId = None \<longrightarrow>
      checkTimeout gd cfg now offerId rideId w = (Inr False, w))
   \<and> (offer_key w rideId = Some offer \<and> \<not> oe_expiresAt offer < now \<longrightarrow>
      checkTimeout gd cfg now offerId rideId w = (Inr False, w))
   \<and> (offer_key w rideId = Some offer \<and> oe_expiresAt offer < now \<longrightarrow>
      checkTimeout gd cfg now offerId rideId w =
        returning
          (handleDriverResponse gd cfg now offerId rideId
             \<lparr> dr_driverId = oe_driverId offer, dr_action = DECLINE,
               dr_reason = Some ''Timeout'' \<rparr> w)
          (\<lambda>_. True))
   \<and> (offer_key w rideId = Some offer \<and> oe_expiresAt offer < now
        \<and> select_ride rideId w = Some ride \<and> offerId \<notin> do_id ` set (driver_offers w) \<longrightarrow>
      fst (checkTimeout gd cfg now offerId rideId w) = Inr True
      \<and> take (length (driver_offers w))
           (driver_offers (snd (checkTimeout gd cfg now offerId rideId w))) =
         map (\<lambda>row. if do_ride_request_id row = rideId \<and> do_driver_id row = oe_driverId offer
                   then row\<lparr>do_status := ''DECLINED'', do_responded_at := Some now,
                          do_decline_reason := Some ''Timeout''\<rparr>
                   else row) (driver_offers w))"
proof (intro conjI impI)
  assume "offer_key w rideId = None"
  then show "checkTimeout gd cfg now offerId rideId w = (Inr False, w)"
    by (simp add: checkTimeout_def)
next
  assume "offer_key w rideId = Some offer \<and> \<not> oe_expiresAt offer < now"
  then show "checkTimeout gd cfg now offerId rideId w = (Inr False, w)"
    by (simp add: checkTimeout_def)
next
  assume "offer_key w rideId = Some offer \<and> oe_expiresAt offer < now"
  then show "checkTimeout gd cfg now offerId rideId w =
        returning
          (handleDriverResponse gd cfg now offerId rideId
             \<lparr> dr_driverId = oe_driverId offer, dr_action = DECLINE,
               dr_reason = Some ''Timeout'' \<rparr> w)
          (\<lambda>_. True)"
    by (simp add: checkTimeout_def)
next
  assume a: "offer_key w rideId = Some offer \<and> oe_expiresAt offer < now
        \<and> select_ride rideId w = Some ride \<and> offerId \<notin> do_id ` set (driver_offers w)"
  let ?resp = "\<lparr> dr_driverId = oe_driverId offer, dr_action = DECLINE,
               dr_reason = Some ''Timeout'' \<rparr>"
  have e: "checkTimeout gd cfg now offerId rideId w =
      returning (handleDriverResponse gd cfg now offerId rideId ?resp w) (\<lambda>_. True)"
    using a by (simp add: checkTimeout_def)
  have d: "dr_action ?resp = DECLINE" by simp
  from a have s: "select_ride rideId w = Some ride"
    and f: "offerId \<notin> do_id ` set (driver_offers w)" by simp_all
  from handleDriverResponse_decline_returns [OF s d f, of gd cfg now]
  show "fst (checkTimeout gd cfg now offerId rideId w) = Inr True"
    unfolding e by auto
  show "take (length (driver_offers w))
           (driver_offers (snd (checkTimeout gd cfg now offerId rideId w))) =
         map (\<lambda>row. if do_ride_request_id row = rideId \<and> do_driver_id row = oe_driverId offer
                   then row\<lparr>do_status := ''DECLINED'', do_responded_at := Some now,
                          do_decline_reason := Some ''Timeout''\<rparr>
                   else row) (driver_offers w)"
    unfolding e returning_simps
    using handleDriverResponse_decline_offers [OF s d, of gd cfg now offerId]
    by (simp add: str_or_def)
qed

theorem C4_checkTimeout_entry_present_and_expired_witness:
  "offer_key offered_world ''ride-1'' =
     Some \<lparr> oe_offerId = ''offer-1'', oe_driverId = ''D1'', oe_expiresAt = 16000 \<rparr>
   \<and> oe_expiresAt \<lparr> oe_offerId = ''offer-1'', oe_driverId = ''D1'', oe_expiresAt = 16000 \<rparr> < 20000
   \<and> select_ride ''ride-1'' offered_world = Some ride_1
   \<and> ''offer-2'' \<notin> do_id ` set (driver_offers offered_world)
   \<and> fst (checkTimeout grid_dist default_config 20000 ''offer-2'' ''ride-1'' offered_world) = Inr True
   \<and> take (length (driver_offers offered_world))
        (driver_offers (snd (checkTimeout grid_dist default_config 20000 ''offer-2'' ''ride-1''
                               offered_world))) =
      [offer_1\<lparr>do_status := ''DECLINED'', do_responded_at := Some 20000,
               do_decline_reason := Some ''Timeout''\<rparr>]
   \<and> offer_key key_expired_world ''ride-1'' = None
   \<and> checkTimeout grid_dist default_config 40000 ''offer-2'' ''ride-1'' key_expired_world =
       (Inr False, key_expired_world)"
proof -
  let ?offer = "\<lparr> oe_offerId = ''offer-1'', oe_driverId = ''D1'', oe_expiresAt = 16000 \<rparr>"
  have x: "oe_expiresAt ?offer < 20000" by simp
  have f: "''offer-2'' \<notin> do_id ` set (driver_offers offered_world)"
    by (simp add: offered_fields offer_1_def)
  have n: "offer_key key_expired_world ''ride-1'' = None"
    by (simp add: key_expired_world_def)
  note T = C4_checkTimeout_entry_present_and_expired
      [of offered_world "''ride-1''" grid_dist default_config 20000 "''offer-2''" ?offer ride_1]
  have h: "offer_key offered_world ''ride-1'' = Some ?offer \<and> oe_expiresAt ?offer < 20000
        \<and> select_ride ''ride-1'' offered_world = Some ride_1
        \<and> ''offer-2'' \<notin> do_id ` set (driver_offers offered_world)"
    using offered_fields(3) x select_offered f by blast
  note R = T [THEN conjunct2, THEN conjunct2, THEN conjunct2, rule_format, OF h]
  have o: "take (length (driver_offers offered_world))
        (driver_offers (snd (checkTimeout grid_dist default_config 20000 ''offer-2'' ''ride-1''
                               offered_world))) =
      [offer_1\<lparr>do_status := ''DECLINED'', do_responded_at := Some 20000,
               do_decline_reason := Some ''Timeout''\<rparr>]"
    unfolding R [THEN conjunct2] by (simp add: offered_fields offer_1_def)
  note A = C4_checkTimeout_entry_present_and_expired
      [of key_expired_world "''ride-1''" grid_dist default_config 40000 "''offer-2''",
        THEN conjunct1, rule_format, OF n]
  show ?thesis
    by (intro conjI) (rule offered_fields(3) x select_offered f R [THEN conjunct1] o n A)+
qed

text \<open>
  The claim as stated fails on an absent entry: the offer of \<open>ride-1\<close> expired at 16000,
  its key is gone at 40000, and \<^verbatim>\<open>checkTimeout\<close> returns \<open>{timedOut: false}\<close> and leaves
  the offer \<open>PENDING\<close>.
\<close>

theorem C4_absent_entry_counterexample:
  "offer_key key_expired_world ''ride-1'' = None
   \<and> (16000::int) < 40000
   \<and> fst (checkTimeout grid_dist default_config 40000 ''offer-2'' ''ride-1'' key_expired_world)
       = Inr False
   \<and> driver_offers
        (snd (checkTimeout grid_dist default_config 40000 ''offer-2'' ''ride-1'' key_expired_world))
       = [offer_1]
   \<and> do_status offer_1 = ''PENDING'' \<and> do_expires_at offer_1 = 16000"
  by (simp add: checkTimeout_def key_expired_world_def offered_fields offer_1_def)

section \<open>Cancelling a ride\<close>

lemma cancelRide_select:
  "select_ride rideId (snd (cancelRide rideId reason w)) =
     map_option (\<lambda>r. r\<lparr>rr_status := ''CANCELLED''\<rparr>) (select_ride rideId w)"
  by (simp add: cancelRide_def select_ride_update)

text \<open>
  Claim C9, as the code has it. \<^verbatim>\<open>cancelRide\<close> sets the stored status of the ride to
  \<open>CANCELLED\<close> whatever its status was, terminal or not; nothing else of the row, no other
  row, no offer and no offer key changes, and for an unknown id the table is unchanged. The
  response is always \<open>{status: CANCELLED, rideId, reason}\<close>.
\<close>

theorem C9_cancelRide_unconditional:
  "fst (cancelRide rideId reason w) = (''CANCELLED'', rideId, reason)
   \<and> ride_requests (snd (cancelRide rideId reason w)) =
       map (\<lambda>r. if rr_id r = rideId then r\<lparr>rr_status := ''CANCELLED''\<rparr> else r) (ride_requests w)
   \<and> (select_ride rideId w = Some ride \<longrightarrow>
        select_ride rideId (snd (cancelRide rideId reason w)) =
          Some (ride\<lparr>rr_status := ''CANCELLED''\<rparr>))
   \<and> (select_ride rideId w = None \<longrightarrow>
        ride_requests (snd (cancelRide rideId reason w)) = ride_requests w)
   \<and> driver_offers (snd (cancelRide rideId reason w)) = driver_offers w
   \<and> offer_key (snd (cancelRide rideId reason w)) = offer_key w"
proof -
  have n: "select_ride rideId w = None \<longrightarrow>
        ride_requests (snd (cancelRide rideId reason w)) = ride_requests w"
    by (auto simp: cancelRide_def select_ride_def find_None_iff intro!: map_idI)
  show ?thesis
    using n by (simp add: cancelRide_select) (simp add: cancelRide_def)
qed

theorem C9_cancelRide_unconditional_witness:
  "select_ride ''ride-1'' accepted_world =
     Some (ride_1\<lparr>rr_status := ''ACCEPTED'', rr_driver_id := Some ''D1''\<rparr>)
   \<and> select_ride ''ride-1'' (snd (cancelRide ''ride-1'' None accepted_world)) =
       Some (ride_1\<lparr>rr_status := ''CANCELLED'', rr_driver_id := Some ''D1''\<rparr>)
   \<and> select_ride ''ride-9'' accepted_world = None
   \<and> ride_requests (snd (cancelRide ''ride-9'' None accepted_world)) = ride_requests accepted_world"
proof -
  note T = C9_cancelRide_unconditional [of "''ride-1''" None accepted_world
      "ride_1\<lparr>rr_status := ''ACCEPTED'', rr_driver_id := Some ''D1''\<rparr>"]
  have a: "select_ride ''ride-1'' (snd (cancelRide ''ride-1'' None accepted_world)) =
       Some (ride_1\<lparr>rr_status := ''CANCELLED'', rr_driver_id := Some ''D1''\<rparr>)"
    using T [THEN conjunct2, THEN conjunct2, THEN conjunct1, rule_format, OF select_accepted]
    by simp
  have n: "select_ride ''ride-9'' accepted_world = None"
    by (simp add: select_ride_def accepted_fields ride_1_fields)
  note U = C9_cancelRide_unconditional [of "''ride-9''" None accepted_world,
      THEN conjunct2, THEN conjunct2, THEN conjunct2, THEN conjunct1, rule_format, OF n]
  show ?thesis
    by (intro conjI) (rule select_accepted a n U)+
qed

text \<open>
  The claim as stated fails on a terminal ride: \<open>ride-1\<close> is \<open>ACCEPTED\<close>, and after
  \<^verbatim>\<open>cancelRide\<close> its stored status is \<open>CANCELLED\<close>.
\<close>

theorem C9_terminal_ride_counterexample:
  "map_option rr_status (select_ride ''ride-1'' accepted_world) = Some ''ACCEPTED''
   \<and> spec_terminal ''ACCEPTED''
   \<and> map_option rr_status (select_ride ''ride-1'' (snd (cancelRide ''ride-1'' None accepted_world)))
       = Some ''CANCELLED''"
  by (simp add: cancelRide_select select_accepted spec_terminal_def)


section \<open>Idempotent intake\<close>

text \<open>
  Claim C5. Two requests carry the same idempotency key, and the first found no cached
  entry and was answered by the handler. If the second has the same method, path and body
  it has the same request hash; with the same hash it gets the first response's body back
  with status 200 and the replay header, and the handler is not run (the state is unchanged,
  whatever the handler); with a different hash it gets 422 with the conflict error, and
  again nothing is run or stored.
\<close>

theorem C5_idempotent_replay_and_conflict:
  assumes "req_idempotency_key r1 = Some k" and "k \<noteq> []"
    and "req_idempotency_key r2 = Some k"
    and "cache k = None"
    and "idempotencyMiddleware True digest next1 r1 (cache, w) = (reply1, (cache1, w1))"
  shows "(req_method r2 = req_method r1 \<and> req_path r2 = req_path r1 \<and> req_body r2 = req_body r1
           \<longrightarrow> hashRequest digest r2 = hashRequest digest r1)
   \<and> (hashRequest digest r2 = hashRequest digest r1 \<longrightarrow>
        idempotencyMiddleware True digest next2 r2 (cache1, w1) =
          (\<lparr> rep_status = 200, rep_body = rep_body reply1,
             rep_headers = [(''X-Idempotency-Replayed'', ''true'')] \<rparr>, (cache1, w1)))
   \<and> (hashRequest digest r2 \<noteq> hashRequest digest r1 \<longrightarrow>
        idempotencyMiddleware True digest next2 r2 (cache1, w1) =
          (\<lparr> rep_status = 422, rep_body = IdempotencyKeyConflict, rep_headers = [] \<rparr>,
           (cache1, w1)))"
proof -
  obtain status body w' where n: "next1 r1 w = ((status, body), w')"
    by (metis prod.exhaust)
  have t1: "truthy (req_idempotency_key r1)" and t2: "truthy (req_idempotency_key r2)"
    using assms(1,2,3) by (simp_all add: truthy_def)
  from assms(5) have c1: "cache1 = cache(k \<mapsto> \<lparr> cr_statusCode = status, cr_body = body,
                          cr_requestHash = hashRequest digest r1 \<rparr>)"
    and b1: "rep_body reply1 = FromHandler body"
    using t1 assms(1,4) n by (auto simp: idempotencyMiddleware_def)
  have a: "req_method r2 = req_method r1 \<and> req_path r2 = req_path r1 \<and> req_body r2 = req_body r1
           \<longrightarrow> hashRequest digest r2 = hashRequest digest r1"
    by (simp add: hashRequest_def)
  have b: "hashRequest digest r2 = hashRequest digest r1 \<longrightarrow>
        idempotencyMiddleware True digest next2 r2 (cache1, w1) =
          (\<lparr> rep_status = 200, rep_body = rep_body reply1,
             rep_headers = [(''X-Idempotency-Replayed'', ''true'')] \<rparr>, (cache1, w1))"
    using t2 assms(3) by (simp add: idempotencyMiddleware_def c1 b1)
  have c: "hashRequest digest r2 \<noteq> hashRequest digest r1 \<longrightarrow>
        idempotencyMiddleware True digest next2 r2 (cache1, w1) =
          (\<lparr> rep_status = 422, rep_body = IdempotencyKeyConflict, rep_headers = [] \<rparr>,
           (cache1, w1))"
    using t2 assms(3) by (auto simp: idempotencyMiddleware_def c1)
  show ?thesis using a b c by blast
qed

theorem C5_idempotent_replay_and_conflict_witness:
  "req_idempotency_key (post_rides ''k2'' ''A'') = Some ''k2''
   \<and> idempotencyMiddleware True concat_digest counting_handler (post_rides ''k2'' ''A'')
        (Map.empty, 0) =
       (\<lparr> rep_status = 201, rep_body = FromHandler ''ride for A'', rep_headers = [] \<rparr>,
        ([''k2'' \<mapsto> \<lparr> cr_statusCode = 201, cr_body = ''ride for A'',
                        cr_requestHash = ''POST / A'' \<rparr>], 1))
   \<and> hashRequest concat_digest (post_rides ''k2'' ''A'') = ''POST / A''
   \<and> hashRequest concat_digest (post_rides ''k2'' ''B'') = ''POST / B''
   \<and> idempotencyMiddleware True concat_digest counting_handler (post_rides ''k2'' ''A'')
        ([''k2'' \<mapsto> \<lparr> cr_statusCode = 201, cr_body = ''ride for A'',
                        cr_requestHash = ''POST / A'' \<rparr>], 1) =
       (\<lparr> rep_status = 200, rep_body = FromHandler ''ride for A'',
          rep_headers = [(''X-Idempotency-Replayed'', ''true'')] \<rparr>,
        ([''k2'' \<mapsto> \<lparr> cr_statusCode = 201, cr_body = ''ride for A'',
                        cr_requestHash = ''POST / A'' \<rparr>], 1))
   \<and> idempotencyMiddleware True concat_digest counting_handler (post_rides ''k2'' ''B'')
        ([''k2'' \<mapsto> \<lparr> cr_statusCode = 201, cr_body = ''ride for A'',
                        cr_requestHash = ''POST / A'' \<rparr>], 1) =
       (\<lparr> rep_status = 422, rep_body = IdempotencyKeyConflict, rep_headers = [] \<rparr>,
        ([''k2'' \<mapsto> \<lparr> cr_statusCode = 201, cr_body = ''ride for A'',
                        cr_requestHash = ''POST / A'' \<rparr>], 1))"
proof -
  let ?c1 = "[''k2'' \<mapsto> \<lparr> cr_statusCode = 201, cr_body = ''ride for A'',
                        cr_requestHash = ''POST / A'' \<rparr>]"
  let ?reply1 = "\<lparr> rep_status = 201, rep_body = FromHandler ''ride for A'', rep_headers = [] \<rparr>"
  have k: "req_idempotency_key (post_rides ''k2'' ''A'') = Some ''k2''"
    "req_idempotency_key (post_rides ''k2'' ''B'') = Some ''k2''"
    by (simp_all add: post_rides_def)
  have ne: "''k2'' \<noteq> []" by simp
  have e: "(Map.empty :: string \<rightharpoonup> string cached_response) ''k2'' = None" by simp
  have hA: "hashRequest concat_digest (post_rides ''k2'' ''A'') = ''POST / A''"
    by (simp add: hashRequest_def concat_digest_def post_rides_def)
  have hB: "hashRequest concat_digest (post_rides ''k2'' ''B'') = ''POST / B''"
    by (simp add: hashRequest_def concat_digest_def post_rides_def)
  have first: "idempotencyMiddleware True concat_digest counting_handler (post_rides ''k2'' ''A'')
        (Map.empty, 0) = (?reply1, (?c1, 1))"
    by (simp add: idempotencyMiddleware_def truthy_def k hA counting_handler_def)
       (simp add: post_rides_def)
  note TA = C5_idempotent_replay_and_conflict [OF k(1) ne k(1) e first, of counting_handler]
  note TB = C5_idempotent_replay_and_conflict [OF k(1) ne k(2) e first, of counting_handler]
  have replay: "idempotencyMiddleware True concat_digest counting_handler (post_rides ''k2'' ''A'')
        (?c1, 1) =
       (\<lparr> rep_status = 200, rep_body = FromHandler ''ride for A'',
          rep_headers = [(''X-Idempotency-Replayed'', ''true'')] \<rparr>, (?c1, 1))"
    using TA [THEN conjunct2, THEN conjunct1] by simp
  have conflict: "idempotencyMiddleware True concat_digest counting_handler (post_rides ''k2'' ''B'')
        (?c1, 1) =
       (\<lparr> rep_status = 422, rep_body = IdempotencyKeyConflict, rep_headers = [] \<rparr>, (?c1, 1))"
    using TB [THEN conjunct2, THEN conjunct2] hA hB by simp
  show ?thesis
    by (intro conjI) (rule k(1) first hA hB replay conflict)+
qed


end
